theory Spec2Isabelle
  imports Complex_Main
begin

section \<open>Data model\<close>

text \<open>
  External device identifiers (\<open>idx\<close>) are Python ints or strings. Float identifiers
  are accepted by the source too; they are left out of the model.
\<close>

datatype ident = IntId int | StrId string

text \<open>The Python exceptions the modelled code can raise.\<close>

datatype error =
    KeyError
  | TypeError
  | IndexError
  | AttributeError
  | NotImplementedError
  | ValueError

text \<open>
  One entry of an attribute array: a number (exact reals stand for the floats of the
  source), an identifier, or Python's \<open>None\<close>.
\<close>

datatype val = Num real | Idv ident | NoneV

text \<open>
  An attribute array as the source stores it: a plain Python list before
  \<open>list2array\<close>, a one-dimensional NumPy array afterwards.
\<close>

datatype arr = PyList "val list" | NdArray "val list"

text \<open>What an indexing expression \<open>a[uid]\<close> can evaluate to.\<close>

datatype pyval = Scalar val | Arr arr | NdArray2 "val list list"

type_synonym addr = nat

text \<open>
  The object store: attribute arrays are mutable objects, referred to by address, so that
  rebinding an attribute and writing into an array in place are different operations.
\<close>

type_synonym heap = "addr \<Rightarrow> arr"

text \<open>
  A device collection (class \<open>Model\<close>). \<open>idx_v\<close> is \<open>self.idx.v\<close>, \<open>uid\<close> the
  dictionary \<open>self.uid\<close>, and \<open>params src attr\<close> the object
  \<open>self.__dict__[src].__dict__[attr]\<close>.
\<close>

record model =
  class_name :: string
  group :: string
  idx_v :: "ident list"
  uid :: "ident \<rightharpoonup> nat"
  params :: "string \<rightharpoonup> (string \<rightharpoonup> addr)"

section \<open>Identifier index: \<open>Model.idx2uid\<close>\<close>

text \<open>
  The argument of \<open>idx2uid\<close>. A sequence holds \<open>None\<close>, identifiers, or inner
  sequences (lists or arrays); an element of an inner sequence that is itself a
  sequence is \<open>NDeep\<close>. \<open>ArgOther\<close> is a value that is neither \<open>None\<close>, nor a
  number or string, nor iterable.
\<close>

datatype inner = NNone | NAtom ident | NDeep

datatype item = INone | IAtom ident | IList "inner list"

datatype idxarg = ArgNone | ArgAtom ident | ArgSeq "item list" | ArgOther

datatype uidres = UNone | UOne nat | UList "nat option list"

definition one_idx2uid :: "model \<Rightarrow> ident \<Rightarrow> error + nat" where
  "one_idx2uid m i = (case uid m i of None \<Rightarrow> Inl KeyError | Some u \<Rightarrow> Inr u)"

text \<open>
  The list comprehension \<open>[f(i) if i is not None else None for i in idx]\<close>: the first
  element that raises ends the evaluation.
\<close>

fun resolve_all :: "('a \<Rightarrow> error + nat option) \<Rightarrow> 'a list \<Rightarrow> error + nat option list" where
  "resolve_all f [] = Inr []"
| "resolve_all f (x # xs) =
     (case f x of
        Inl e \<Rightarrow> Inl e
      | Inr u \<Rightarrow> (case resolve_all f xs of Inl e \<Rightarrow> Inl e | Inr us \<Rightarrow> Inr (u # us)))"

definition resolve_item :: "model \<Rightarrow> item \<Rightarrow> error + nat option" where
  "resolve_item m x =
     (case x of
        INone \<Rightarrow> Inr None
      | IAtom i \<Rightarrow> (case one_idx2uid m i of Inl e \<Rightarrow> Inl e | Inr u \<Rightarrow> Inr (Some u))
      | IList ys \<Rightarrow> Inl TypeError)"

definition resolve_inner :: "model \<Rightarrow> inner \<Rightarrow> error + nat option" where
  "resolve_inner m x =
     (case x of
        NNone \<Rightarrow> Inr None
      | NAtom i \<Rightarrow> (case one_idx2uid m i of Inl e \<Rightarrow> Inl e | Inr u \<Rightarrow> Inr (Some u))
      | NDeep \<Rightarrow> Inl TypeError)"

text \<open>
  \<open>list_flatten\<close> (imported from the ANDES library) on a sequence whose first element is
  a list: \<open>functools.reduce(operator.iconcat, idx, [])\<close>, one level of concatenation.
  A string element is iterable and contributes its characters; \<open>None\<close> and ints are not
  iterable.
\<close>

fun list_flatten :: "item list \<Rightarrow> error + inner list" where
  "list_flatten [] = Inr []"
| "list_flatten (IList ys # xs) =
     (case list_flatten xs of Inl e \<Rightarrow> Inl e | Inr zs \<Rightarrow> Inr (ys @ zs))"
| "list_flatten (IAtom (StrId s) # xs) =
     (case list_flatten xs of
        Inl e \<Rightarrow> Inl e
      | Inr zs \<Rightarrow> Inr (map (\<lambda>c. NAtom (StrId [c])) s @ zs))"
| "list_flatten (IAtom (IntId k) # xs) = Inl TypeError"
| "list_flatten (INone # xs) = Inl TypeError"

fun is_list :: "item \<Rightarrow> bool" where
  "is_list (IList ys) = True"
| "is_list x = False"

definition idx2uid :: "model \<Rightarrow> idxarg \<Rightarrow> error + uidres" where
  "idx2uid m idx =
     (case idx of
        ArgNone \<Rightarrow> Inr UNone
      | ArgAtom i \<Rightarrow> (case one_idx2uid m i of Inl e \<Rightarrow> Inl e | Inr u \<Rightarrow> Inr (UOne u))
      | ArgSeq xs \<Rightarrow>
          (if xs \<noteq> [] \<and> is_list (hd xs)
           then (case list_flatten xs of
                   Inl e \<Rightarrow> Inl e
                 | Inr ys \<Rightarrow> (case resolve_all (resolve_inner m) ys of
                                Inl e \<Rightarrow> Inl e
                              | Inr us \<Rightarrow> Inr (UList us)))
           else (case resolve_all (resolve_item m) xs of
                   Inl e \<Rightarrow> Inl e
                 | Inr us \<Rightarrow> Inr (UList us)))
      | ArgOther \<Rightarrow> Inl NotImplementedError)"

section \<open>Device collection accessor: \<open>Model.get\<close>\<close>

text \<open>\<open>a[uid]\<close> on a Python list: an int index in range, anything else is an error.\<close>

definition list_getitem :: "val list \<Rightarrow> uidres \<Rightarrow> error + pyval" where
  "list_getitem xs u =
     (case u of
        UOne i \<Rightarrow> (if i < length xs then Inr (Scalar (xs ! i)) else Inl IndexError)
      | UNone \<Rightarrow> Inl TypeError
      | UList us \<Rightarrow> Inl TypeError)"

text \<open>
  \<open>a[uid]\<close> on a one-dimensional NumPy array: an int index gives the entry, \<open>None\<close> is
  \<open>numpy.newaxis\<close> and gives the array as the single row of a two-dimensional one, and
  a list is an index array, which must hold integers only (a list with \<open>None\<close> in it
  becomes an object array, refused with IndexError) and selects the entries in the
  order of the list.
\<close>

definition nd_getitem :: "val list \<Rightarrow> uidres \<Rightarrow> error + pyval" where
  "nd_getitem xs u =
     (case u of
        UOne i \<Rightarrow> (if i < length xs then Inr (Scalar (xs ! i)) else Inl IndexError)
      | UNone \<Rightarrow> Inr (NdArray2 [xs])
      | UList us \<Rightarrow>
          (if None \<in> set us then Inl IndexError
           else if \<forall>i \<in> set us. the i < length xs
           then Inr (Arr (NdArray (map (\<lambda>i. xs ! the i) us)))
           else Inl IndexError))"

text \<open>
  The comprehension \<open>[a[i] if i is not None else default for i in uid]\<close> on a Python
  list \<open>a\<close>.
\<close>

fun pick_all :: "val list \<Rightarrow> val \<Rightarrow> nat option list \<Rightarrow> error + val list" where
  "pick_all xs d [] = Inr []"
| "pick_all xs d (None # us) =
     (case pick_all xs d us of Inl e \<Rightarrow> Inl e | Inr vs \<Rightarrow> Inr (d # vs))"
| "pick_all xs d (Some i # us) =
     (if i < length xs
      then (case pick_all xs d us of Inl e \<Rightarrow> Inl e | Inr vs \<Rightarrow> Inr (xs ! i # vs))
      else Inl IndexError)"

definition Model_get ::
  "heap \<Rightarrow> model \<Rightarrow> string \<Rightarrow> idxarg \<Rightarrow> string \<Rightarrow> bool \<Rightarrow> val \<Rightarrow> error + pyval" where
  "Model_get h m src idx attr allow_none dflt =
     (case idx2uid m idx of
        Inl e \<Rightarrow> Inl e
      | Inr u \<Rightarrow>
          (case params m src of
             None \<Rightarrow> Inl KeyError
           | Some inst \<Rightarrow>
               (case inst attr of
                  None \<Rightarrow> Inl KeyError
                | Some a \<Rightarrow>
                    (case h a of
                       PyList xs \<Rightarrow>
                         (case u of
                            UList us \<Rightarrow>
                              (if \<not> allow_none \<and> None \<in> set us then Inl KeyError
                               else (case pick_all xs dflt us of
                                       Inl e \<Rightarrow> Inl e
                                     | Inr vs \<Rightarrow> Inr (Arr (PyList vs))))
                          | _ \<Rightarrow> list_getitem xs u)
                     | NdArray xs \<Rightarrow> nd_getitem xs u))))"

section \<open>System, groups and parameter references\<close>

text \<open>
  Modelled from the spec: a group of collections. The group framework (\<open>GroupBase\<close> of
  the ANDES library) is not part of the source at hand; the spec gives a group an ordered
  membership, the listing of its identifiers, and the accessors \<open>get\<close> and \<open>set\<close>.
  \<open>members\<close> names the member collections in registration order.
\<close>

record grp =
  members :: "string list"

text \<open>
  What an attribute of the system object can hold: a collection, a group, or some other
  object (one that has neither a \<open>group\<close> nor a \<open>get_idx\<close> attribute); the flag of the
  latter says whether it has a \<open>class_name\<close> attribute.
\<close>

datatype sysobj = ObjModel model | ObjGroup grp | ObjOther bool

text \<open>
  The system: the store of attribute arrays with its next unused address, the objects
  reached by \<open>getattr(system, name)\<close>, the keys of \<open>system.routines\<close>, and the cursor
  \<open>system.recent\<close>. Objects are referred to by their attribute name under the system.
\<close>

record system =
  heap :: heap
  nxt :: addr
  objs :: "string \<rightharpoonup> sysobj"
  routines :: "string list"
  recent :: "string option"

text \<open>The number of devices of a collection, \<open>Model.n\<close>.\<close>

definition Model_n :: "model \<Rightarrow> nat" where
  "Model_n m = length (idx_v m)"

definition member_model :: "system \<Rightarrow> string \<Rightarrow> model option" where
  "member_model sys nm = (case objs sys nm of Some (ObjModel m) \<Rightarrow> Some m | _ \<Rightarrow> None)"

text \<open>
  Modelled from the spec: \<open>get_idx\<close> of a group, the identifiers of the member
  collections, concatenated in registration order.
\<close>

definition Group_get_idx :: "system \<Rightarrow> grp \<Rightarrow> ident list" where
  "Group_get_idx sys g =
     concat (map (\<lambda>nm. case member_model sys nm of Some m \<Rightarrow> idx_v m | None \<Rightarrow> [])
       (members g))"

text \<open>
  Modelled from the spec: the member collection that registers an identifier, the first
  one in registration order.
\<close>

fun idx2model :: "system \<Rightarrow> string list \<Rightarrow> ident \<Rightarrow> (string \<times> model) option" where
  "idx2model sys [] i = None"
| "idx2model sys (nm # nms) i =
     (case member_model sys nm of
        Some m \<Rightarrow> (if uid m i \<noteq> None then Some (nm, m) else idx2model sys nms i)
      | None \<Rightarrow> idx2model sys nms i)"

text \<open>The current array of an attribute of a collection, and its address.\<close>

definition attr_addr :: "model \<Rightarrow> string \<Rightarrow> string \<Rightarrow> addr option" where
  "attr_addr m src attr = (case params m src of None \<Rightarrow> None | Some inst \<Rightarrow> inst attr)"

text \<open>
  Modelled from the spec: \<open>get\<close> of a group, the value of the attribute for each
  identifier in turn, read from the member collection that registers it; the result is
  a new array.
\<close>

fun group_values :: "system \<Rightarrow> grp \<Rightarrow> string \<Rightarrow> string \<Rightarrow> ident list \<Rightarrow> error + val list" where
  "group_values sys g src attr [] = Inr []"
| "group_values sys g src attr (i # is) =
     (case idx2model sys (members g) i of
        None \<Rightarrow> Inl KeyError
      | Some (nm, m) \<Rightarrow>
          (case Model_get (heap sys) m src (ArgAtom i) attr False (Num 0) of
             Inr (Scalar v) \<Rightarrow>
               (case group_values sys g src attr is of
                  Inl e \<Rightarrow> Inl e
                | Inr vs \<Rightarrow> Inr (v # vs))
           | Inr _ \<Rightarrow> Inl TypeError
           | Inl e \<Rightarrow> Inl e))"

definition Group_get :: "system \<Rightarrow> grp \<Rightarrow> string \<Rightarrow> ident list \<Rightarrow> string \<Rightarrow> error + pyval" where
  "Group_get sys g src idx attr =
     (case group_values sys g src attr idx of
        Inl e \<Rightarrow> Inl e
      | Inr vs \<Rightarrow> Inr (Arr (NdArray vs)))"

text \<open>
  The in-place write \<open>a[u] = v\<close> into the array object at an address: the object keeps
  its address, an index out of range raises.
\<close>

definition arr_items :: "arr \<Rightarrow> val list" where
  "arr_items x = (case x of PyList xs \<Rightarrow> xs | NdArray xs \<Rightarrow> xs)"

definition arr_update :: "arr \<Rightarrow> nat \<Rightarrow> val \<Rightarrow> arr" where
  "arr_update x u v = (case x of PyList xs \<Rightarrow> PyList (xs[u := v]) | NdArray xs \<Rightarrow> NdArray (xs[u := v]))"

definition setitem :: "heap \<Rightarrow> addr \<Rightarrow> nat \<Rightarrow> val \<Rightarrow> error + heap" where
  "setitem h a u v =
     (if u < length (arr_items (h a)) then Inr (h(a := arr_update (h a) u v))
      else Inl IndexError)"

text \<open>
  Modelled from the spec: \<open>set\<close> of a group, an in-place scatter write of one value per
  identifier into the attribute array of the member collection that registers it; the
  number of values must be the number of identifiers.
\<close>

fun group_scatter ::
  "system \<Rightarrow> grp \<Rightarrow> string \<Rightarrow> string \<Rightarrow> (ident \<times> val) list \<Rightarrow> heap \<Rightarrow> error + heap" where
  "group_scatter sys g src attr [] h = Inr h"
| "group_scatter sys g src attr ((i, v) # ivs) h =
     (case idx2model sys (members g) i of
        None \<Rightarrow> Inl KeyError
      | Some (nm, m) \<Rightarrow>
          (case attr_addr m src attr of
             None \<Rightarrow> Inl KeyError
           | Some a \<Rightarrow>
               (case setitem h a (the (uid m i)) v of
                  Inl e \<Rightarrow> Inl e
                | Inr h' \<Rightarrow> group_scatter sys g src attr ivs h')))"

definition Group_set ::
  "system \<Rightarrow> grp \<Rightarrow> string \<Rightarrow> ident list \<Rightarrow> string \<Rightarrow> val list \<Rightarrow> error + system" where
  "Group_set sys g src idx attr vals =
     (if length vals \<noteq> length idx then Inl ValueError
      else (case group_scatter sys g src attr (zip idx vals) (heap sys) of
              Inl e \<Rightarrow> Inl e
            | Inr h' \<Rightarrow> Inr (sys\<lparr>heap := h'\<rparr>)))"

text \<open>
  A parameter reference (class \<open>RParam\<close>). \<open>owner\<close> is a reference to the owner object,
  \<open>None\<close> while unbound, and \<open>v_priv\<close> is the attribute \<open>_v\<close>, present when a value was
  supplied at construction.
\<close>

record rparam =
  name :: "string option"
  src :: "string option"
  is_group :: bool
  owner_name :: "string option"
  owner :: "string option"
  is_set :: bool
  v_priv :: "pyval option"

definition RParam_init ::
  "string option \<Rightarrow> string option \<Rightarrow> string option \<Rightarrow> pyval option \<Rightarrow> rparam" where
  "RParam_init nm sr onm v =
     \<lparr>name = nm, src = (if sr = None then nm else sr), is_group = False,
      owner_name = onm, owner = None, is_set = (v \<noteq> None), v_priv = v\<rparr>"

text \<open>
  What reading a Python expression yields: a reference to an array object of the store
  (the object itself, not a copy), or a value of its own.
\<close>

datatype pyobj = Ref addr | Val pyval

definition observe :: "system \<Rightarrow> pyobj \<Rightarrow> pyval" where
  "observe sys x = (case x of Ref a \<Rightarrow> Arr (heap sys a) | Val v \<Rightarrow> v)"

text \<open>
  The property \<open>RParam.v\<close>. In the last branch \<open>getattr(self.owner, self.src)\<close> and then
  \<open>getattr(src_param, 'v')\<close> are looked up at every read; a missing attribute (also of
  \<open>None\<close>, for an unbound reference, and of a group, which has no parameter attributes
  and is asked for \<open>get_idx\<close> only in the group branch) raises AttributeError, and a
  \<open>src\<close> that is \<open>None\<close> is not a valid attribute name.
\<close>

definition RParam_v :: "system \<Rightarrow> rparam \<Rightarrow> error + pyobj" where
  "RParam_v sys r =
     (if is_set r then (case v_priv r of None \<Rightarrow> Inl AttributeError | Some x \<Rightarrow> Inr (Val x))
      else if is_group r then
        (case owner r of
           None \<Rightarrow> Inl AttributeError
         | Some onm \<Rightarrow>
             (case objs sys onm of
                Some (ObjGroup g) \<Rightarrow>
                  (case src r of
                     None \<Rightarrow> Inl TypeError
                   | Some s \<Rightarrow>
                       (case Group_get sys g s (Group_get_idx sys g) ''v'' of
                          Inl e \<Rightarrow> Inl e
                        | Inr x \<Rightarrow> Inr (Val x)))
              | _ \<Rightarrow> Inl AttributeError))
      else
        (case owner r of
           None \<Rightarrow> (case src r of None \<Rightarrow> Inl TypeError | Some s \<Rightarrow> Inl AttributeError)
         | Some onm \<Rightarrow>
             (case src r of
                None \<Rightarrow> Inl TypeError
              | Some s \<Rightarrow>
                  (case objs sys onm of
                     Some (ObjModel m) \<Rightarrow>
                       (case attr_addr m s ''v'' of
                          None \<Rightarrow> Inl AttributeError
                        | Some a \<Rightarrow> Inr (Ref a))
                   | _ \<Rightarrow> Inl AttributeError))))"

section \<open>Routine pipeline: \<open>unpack\<close> and \<open>run\<close>\<close>

text \<open>Sequencing of steps that can raise: the first exception ends the evaluation.\<close>

definition bind_err :: "error + 'a \<Rightarrow> ('a \<Rightarrow> error + 'b) \<Rightarrow> error + 'b" where
  "bind_err x k = (case x of Inl e \<Rightarrow> Inl e | Inr a \<Rightarrow> k a)"

text \<open>
  A two-dimensional NumPy array of numbers, with its number of columns (an array with
  no rows still has one). \<open>col M j\<close> is \<open>M[:, j]\<close>.
\<close>

record mat =
  ncols :: nat
  mrows :: "real list list"

definition col :: "mat \<Rightarrow> nat \<Rightarrow> error + real list" where
  "col M j =
     (if j < ncols M \<and> list_all (\<lambda>r. length r = ncols M) (mrows M)
      then Inr (map (\<lambda>r. r ! j) (mrows M))
      else Inl IndexError)"

text \<open>
  The solver's result: \<open>res['baseMVA']\<close>, \<open>res['bus']\<close>, \<open>res['gen']\<close>,
  \<open>res['success']\<close> and \<open>res['f']\<close>.
\<close>

record result =
  res_baseMVA :: real
  res_bus :: mat
  res_gen :: mat
  res_success :: bool
  res_f :: real

text \<open>
  The assignment \<open>system.<obj>.<p>.v = x\<close>: the attribute \<open>v\<close> of the parameter object
  is bound to the array object \<open>x\<close>, a new object of the store. The array that was bound
  before is not written to.
\<close>

definition setattr_v :: "system \<Rightarrow> string \<Rightarrow> string \<Rightarrow> arr \<Rightarrow> error + system" where
  "setattr_v sys onm p x =
     (case objs sys onm of
        Some (ObjModel m) \<Rightarrow>
          (case params m p of
             None \<Rightarrow> Inl AttributeError
           | Some inst \<Rightarrow>
               Inr (sys\<lparr>heap := (heap sys)(nxt sys := x),
                        nxt := Suc (nxt sys),
                        objs := (objs sys)(onm \<mapsto>
                          ObjModel (m\<lparr>params := (params m)(p \<mapsto> inst(''v'' \<mapsto> nxt sys))\<rparr>))\<rparr>))
      | _ \<Rightarrow> Inl AttributeError)"

definition Slack_n :: "system \<Rightarrow> error + nat" where
  "Slack_n sys =
     (case objs sys ''Slack'' of Some (ObjModel m) \<Rightarrow> Inr (Model_n m) | _ \<Rightarrow> Inl AttributeError)"

text \<open>
  The first part of \<open>unpack\<close>, the same in \<open>DCPFlowBase\<close> and \<open>ACOPFBase\<close>: six
  assignments, each evaluating its right-hand side before its target. The constant
  \<open>deg2rad\<close>, imported from the ANDES library, is a parameter.
\<close>

definition unpack_devices :: "real \<Rightarrow> system \<Rightarrow> result \<Rightarrow> error + system" where
  "unpack_devices deg2rad sys res =
     (let mva = res_baseMVA res in
      bind_err (col (res_bus res) 7) (\<lambda>vm.
      bind_err (setattr_v sys ''Bus'' ''v'' (NdArray (map Num vm))) (\<lambda>s1.
      bind_err (col (res_bus res) 8) (\<lambda>va.
      bind_err (setattr_v s1 ''Bus'' ''a'' (NdArray (map (\<lambda>x. Num (x * deg2rad)) va))) (\<lambda>s2.
      bind_err (Slack_n s2) (\<lambda>k1.
      bind_err (col (res_gen res) 1) (\<lambda>p1.
      bind_err (setattr_v s2 ''PV'' ''p'' (NdArray (map (\<lambda>x. Num (x / mva)) (drop k1 p1)))) (\<lambda>s3.
      bind_err (Slack_n s3) (\<lambda>k2.
      bind_err (col (res_gen res) 2) (\<lambda>q1.
      bind_err (setattr_v s3 ''PV'' ''q'' (NdArray (map (\<lambda>x. Num (x / mva)) (drop k2 q1)))) (\<lambda>s4.
      bind_err (Slack_n s4) (\<lambda>k3.
      bind_err (col (res_gen res) 1) (\<lambda>p2.
      bind_err (setattr_v s4 ''Slack'' ''p'' (NdArray (map (\<lambda>x. Num (x / mva)) (take k3 p2)))) (\<lambda>s5.
      bind_err (Slack_n s5) (\<lambda>k4.
      bind_err (col (res_gen res) 2) (\<lambda>q2.
      setattr_v s5 ''Slack'' ''q'' (NdArray (map (\<lambda>x. Num (x / mva)) (take k4 q2)))))))))))))))))))"

text \<open>
  A routine variable, as \<open>unpack\<close> uses it: \<open>owner_name\<close>, \<open>src\<close> and the value \<open>v\<close>
  that is assigned.
\<close>

record var =
  var_owner_name :: "string option"
  var_src :: "string option"
  var_v :: "pyval option"

text \<open>
  The state of a routine object: \<open>class_name\<close>, \<open>is_setup\<close>, \<open>exit_code\<close>,
  \<open>exec_time\<close>, the ordered dictionaries \<open>vars\<close> and \<open>ralgebs\<close>, the value of the
  objective \<open>obj.v\<close>, and the names of the variables a warning was logged for.
\<close>

record routine =
  rt_class_name :: string
  is_setup :: bool
  exit_code :: int
  exec_time :: real
  vars :: "(string \<times> var) list"
  ralgebs :: "(string \<times> var) list"
  obj_v :: "real option"
  warned :: "string list"

datatype outcome = Skipped | Warned | Written pyval

text \<open>
  One pass of the loop body of \<open>unpack\<close>. \<open>getattr(system, var.owner_name)\<close> comes
  first and raises when the system has no such attribute (TypeError when the name is
  \<open>None\<close>); the warning of the last branch formats \<open>owner.class_name\<close>.
\<close>

definition unpack_var :: "system \<Rightarrow> var \<Rightarrow> error + outcome" where
  "unpack_var sys x =
     (case var_owner_name x of
        None \<Rightarrow> Inl TypeError
      | Some onm \<Rightarrow>
          (case objs sys onm of
             None \<Rightarrow> Inl AttributeError
           | Some ob \<Rightarrow>
               (case var_src x of
                  None \<Rightarrow> Inr Skipped
                | Some s \<Rightarrow>
                    (case ob of
                       ObjModel m \<Rightarrow>
                         (case objs sys (group m) of
                            Some (ObjGroup g) \<Rightarrow>
                              (case Model_get (heap sys) m s
                                      (ArgSeq (map IAtom (Group_get_idx sys g))) ''v'' False (Num 0) of
                                 Inl e \<Rightarrow> Inl e
                               | Inr y \<Rightarrow> Inr (Written y))
                          | _ \<Rightarrow> Inl AttributeError)
                     | ObjGroup g \<Rightarrow>
                         (case Group_get sys g s (Group_get_idx sys g) ''v'' of
                            Inl e \<Rightarrow> Inl e
                          | Inr y \<Rightarrow> Inr (Written y))
                     | ObjOther has_class_name \<Rightarrow>
                         (if has_class_name then Inr Warned else Inl AttributeError)))))"

text \<open>
  The loop over the dictionary of variables: it returns the variables with their new
  values and the names warned about, or the first exception.
\<close>

fun unpack_vars ::
  "system \<Rightarrow> (string \<times> var) list \<Rightarrow> error + ((string \<times> var) list \<times> string list)" where
  "unpack_vars sys [] = Inr ([], [])"
| "unpack_vars sys ((raname, x) # xs) =
     (case unpack_var sys x of
        Inl e \<Rightarrow> Inl e
      | Inr oc \<Rightarrow>
          (case unpack_vars sys xs of
             Inl e \<Rightarrow> Inl e
           | Inr (ys, ws) \<Rightarrow>
               (case oc of
                  Skipped \<Rightarrow> Inr ((raname, x) # ys, ws)
                | Warned \<Rightarrow> Inr ((raname, x) # ys, raname # ws)
                | Written y \<Rightarrow> Inr ((raname, x\<lparr>var_v := Some y\<rparr>) # ys, ws))))"

definition set_recent :: "system \<Rightarrow> string \<Rightarrow> error + system" where
  "set_recent sys cn =
     (if cn \<in> set (routines sys) then Inr (sys\<lparr>recent := Some cn\<rparr>) else Inl KeyError)"

text \<open>\<open>DCPFlowBase.unpack\<close>; its return value is always \<open>True\<close>.\<close>

definition DCPF_unpack ::
  "real \<Rightarrow> system \<Rightarrow> routine \<Rightarrow> result \<Rightarrow> error + system \<times> routine" where
  "DCPF_unpack deg2rad sys r res =
     bind_err (unpack_devices deg2rad sys res) (\<lambda>s1.
     bind_err (unpack_vars s1 (vars r)) (\<lambda>(ys, ws).
     bind_err (set_recent s1 (rt_class_name r)) (\<lambda>s2.
     Inr (s2, r\<lparr>vars := ys, warned := warned r @ ws\<rparr>))))"

text \<open>\<open>ACOPFBase.unpack\<close>; its return value is always \<open>True\<close>.\<close>

definition ACOPF_unpack ::
  "real \<Rightarrow> system \<Rightarrow> routine \<Rightarrow> result \<Rightarrow> error + system \<times> routine" where
  "ACOPF_unpack deg2rad sys r res =
     bind_err (unpack_devices deg2rad sys res) (\<lambda>s1.
     bind_err (unpack_vars s1 (ralgebs r)) (\<lambda>(ys, ws).
     bind_err (set_recent s1 (rt_class_name r)) (\<lambda>s2.
     Inr (s2, r\<lparr>ralgebs := ys, warned := warned r @ ws, obj_v := Some (res_f res)\<rparr>))))"

text \<open>
  \<open>DCPFlowBase.run\<close>. \<open>setup\<close> and \<open>solve\<close> are methods defined outside the source
  at hand and are parameters here, as is the reading \<open>secs\<close> of the clock. The result is
  the returned Boolean with the state after the call.
\<close>

definition DCPF_run ::
  "real \<Rightarrow> (system \<times> routine \<Rightarrow> error + system \<times> routine) \<Rightarrow>
   (system \<times> routine \<Rightarrow> error + result \<times> bool) \<Rightarrow> real \<Rightarrow>
   system \<times> routine \<Rightarrow> error + bool \<times> system \<times> routine" where
  "DCPF_run deg2rad setup solve secs st =
     bind_err (if \<not> is_setup (snd st) then setup st else Inr st) (\<lambda>(s1, r1).
     bind_err (solve (s1, r1)) (\<lambda>(res, ok).
     bind_err (DCPF_unpack deg2rad s1 (r1\<lparr>exit_code := (if ok then 0 else 1), exec_time := secs\<rparr>) res)
       (\<lambda>(s2, r2). Inr (exit_code r2 = 0, s2, r2))))"

text \<open>\<open>ACOPFBase.run\<close>: it returns the exit code.\<close>

definition ACOPF_run ::
  "real \<Rightarrow> (system \<times> routine \<Rightarrow> error + system \<times> routine) \<Rightarrow>
   (system \<times> routine \<Rightarrow> error + result) \<Rightarrow> real \<Rightarrow>
   system \<times> routine \<Rightarrow> error + int \<times> system \<times> routine" where
  "ACOPF_run deg2rad setup solve secs st =
     bind_err (if \<not> is_setup (snd st) then setup st else Inr st) (\<lambda>(s1, r1).
     bind_err (solve (s1, r1)) (\<lambda>res.
     bind_err (ACOPF_unpack deg2rad s1
         (r1\<lparr>exit_code := 1 - (if res_success res then 1 else 0), exec_time := secs\<rparr>) res)
       (\<lambda>(s2, r2). Inr (exit_code r2, s2, r2))))"

text \<open>The array an attribute of a collection of the system is bound to, and its contents.\<close>

definition sys_attr_addr :: "system \<Rightarrow> string \<Rightarrow> string \<Rightarrow> addr option" where
  "sys_attr_addr sys onm p =
     (case member_model sys onm of None \<Rightarrow> None | Some m \<Rightarrow> attr_addr m p ''v'')"

definition sys_attr :: "system \<Rightarrow> string \<Rightarrow> string \<Rightarrow> arr option" where
  "sys_attr sys onm p = map_option (heap sys) (sys_attr_addr sys onm p)"

section \<open>Sensitivity matrix partition: \<open>MatProcessor.make\<close>\<close>




section \<open>Unit commitment: \<open>UCModel._initial_guess\<close>\<close>

text \<open>\<open>x == 0\<close> for an entry of an array.\<close>

definition is_zero :: "val \<Rightarrow> bool" where
  "is_zero x = (case x of Num y \<Rightarrow> y = 0 | Idv (IntId k) \<Rightarrow> k = 0 | _ \<Rightarrow> False)"

text \<open>
  \<open>(ug0 == 0).any()\<close>: on a NumPy array the comparison is elementwise; on a Python
  list it is the Boolean \<open>False\<close>, which has no method \<open>any\<close>. \<open>get\<close> of a sequence
  of identifiers returns a sequence, so the last two cases are not reached.
\<close>

definition any_zero :: "pyval \<Rightarrow> error + bool" where
  "any_zero x =
     (case x of
        Arr (NdArray vs) \<Rightarrow> Inr (list_ex is_zero vs)
      | Arr (PyList vs) \<Rightarrow> Inl AttributeError
      | Scalar v \<Rightarrow> Inl AttributeError
      | NdArray2 rs \<Rightarrow> Inr (list_ex (list_ex is_zero) rs))"

text \<open>
  The assignment of a column to the data frame, \<open>gen[c] = x\<close>: the value must have one
  entry per row.
\<close>

definition column :: "nat \<Rightarrow> error + pyval \<Rightarrow> error + val list" where
  "column k x =
     (case x of
        Inl e \<Rightarrow> Inl e
      | Inr (Arr a) \<Rightarrow> (if length (arr_items a) = k then Inr (arr_items a) else Inl ValueError)
      | Inr _ \<Rightarrow> Inl ValueError)"

text \<open>Arithmetic on a column needs numbers.\<close>

fun nums :: "val list \<Rightarrow> error + real list" where
  "nums [] = Inr []"
| "nums (Num x # vs) = (case nums vs of Inl e \<Rightarrow> Inl e | Inr xs \<Rightarrow> Inr (x # xs))"
| "nums (v # vs) = Inl TypeError"

definition wsum :: "real \<Rightarrow> real \<Rightarrow> real \<Rightarrow> real \<Rightarrow> real" where
  "wsum c2 c1 c0 Sn = 0.4 * c2 + 0.3 * c1 + 0.2 * c0 + 0.1 * Sn"

fun wsums :: "real list \<Rightarrow> real list \<Rightarrow> real list \<Rightarrow> real list \<Rightarrow> real list" where
  "wsums (a # as) (b # bs) (c # cs) (d # ds) = wsum a b c d # wsums as bs cs ds"
| "wsums as bs cs ds = []"

text \<open>
  The column \<open>wsum\<close> of the data frame, one score per PV generator. \<open>find_idx\<close>, a
  method of the ANDES library that finds the cost device of every generator, is a
  parameter; it reads the system and returns identifiers or raises.
\<close>

definition priority_scores ::
  "(system \<Rightarrow> ident list \<Rightarrow> error + ident list) \<Rightarrow> system \<Rightarrow> model \<Rightarrow> error + real list" where
  "priority_scores find_idx sys pv =
     (let ids = idx_v pv; k = length ids; arg = ArgSeq (map IAtom ids); h = heap sys in
      bind_err (column k (Model_get h pv ''Sn'' arg ''v'' False (Num 0))) (\<lambda>Sn.
      bind_err (column k (Model_get h pv ''bus'' arg ''v'' False (Num 0))) (\<lambda>bus.
      bind_err (column k (Model_get h pv ''zone'' arg ''v'' False (Num 0))) (\<lambda>zone.
      (case objs sys ''GCost'' of
         Some (ObjModel gc) \<Rightarrow>
           bind_err (find_idx sys ids) (\<lambda>gcost_idx.
           (let carg = ArgSeq (map IAtom gcost_idx) in
            bind_err (column k (Model_get h gc ''c2'' carg ''v'' False (Num 0))) (\<lambda>c2.
            bind_err (column k (Model_get h gc ''c1'' carg ''v'' False (Num 0))) (\<lambda>c1.
            bind_err (column k (Model_get h gc ''c0'' carg ''v'' False (Num 0))) (\<lambda>c0.
            bind_err (nums c2) (\<lambda>x2.
            bind_err (nums c1) (\<lambda>x1.
            bind_err (nums c0) (\<lambda>x0.
            bind_err (nums Sn) (\<lambda>xs.
            Inr (wsums x2 x1 x0 xs))))))))))
       | _ \<Rightarrow> Inl AttributeError)))))"

text \<open>
  \<open>g_idx\<close>: the identifiers sorted by ascending score, cut to the first
  \<open>int(0.3 * len(priority))\<close>. The product is computed in floating point and equals
  three tenths of the length rounded down. The sort of the source is not stable; the
  model sorts stably, and the properties below do not depend on the order of ties.
\<close>

definition priority_off :: "ident list \<Rightarrow> real list \<Rightarrow> ident list" where
  "priority_off ids ws = take ((3 * length ids) div 10) (map fst (sort_key snd (zip ids ws)))"

text \<open>
  \<open>UCModel._initial_guess\<close>: the returned Boolean with the state after the call. The
  value written is \<open>np.zeros_like(g_idx)\<close>, one zero per identifier.
\<close>

definition initial_guess ::
  "(system \<Rightarrow> ident list \<Rightarrow> error + ident list) \<Rightarrow> system \<Rightarrow> error + bool \<times> system" where
  "initial_guess find_idx sys =
     (case objs sys ''PV'' of
        Some (ObjModel pv) \<Rightarrow>
          bind_err (Model_get (heap sys) pv ''u'' (ArgSeq (map IAtom (idx_v pv))) ''v'' False (Num 0))
            (\<lambda>ug0.
          bind_err (any_zero ug0) (\<lambda>offline.
          if offline then Inr (True, sys)
          else
            bind_err (priority_scores find_idx sys pv) (\<lambda>ws.
            (let g_idx = priority_off (idx_v pv) ws in
             (case objs sys ''StaticGen'' of
                Some (ObjGroup g) \<Rightarrow>
                  bind_err (Group_set sys g ''u'' g_idx ''v'' (replicate (length g_idx) (Num 0)))
                    (\<lambda>sys'. Inr (True, sys'))
              | _ \<Rightarrow> Inl AttributeError)))))
      | _ \<Rightarrow> Inl AttributeError)"

section \<open>Auxiliary notions for the proofs\<close>

text \<open>
  \<open>bound_to sys onm p a x\<close>: the attribute \<open>p\<close> of the collection \<open>onm\<close> is bound to the
  array object at address \<open>a\<close>, which holds \<open>x\<close> and lies below the next unused address.
\<close>

definition bound_to :: "system \<Rightarrow> string \<Rightarrow> string \<Rightarrow> addr \<Rightarrow> arr \<Rightarrow> bool" where
  "bound_to sys onm p a x \<longleftrightarrow>
     sys_attr_addr sys onm p = Some a \<and> heap sys a = x \<and> a < nxt sys"

definition has_param :: "system \<Rightarrow> string \<Rightarrow> string \<Rightarrow> bool" where
  "has_param sys onm p \<longleftrightarrow>
     (\<exists>m inst. objs sys onm = Some (ObjModel m) \<and> params m p = Some inst)"

text \<open>The entries of column \<open>j\<close> of a matrix that has one.\<close>

definition the_col :: "mat \<Rightarrow> nat \<Rightarrow> real list" where
  "the_col M j = map (\<lambda>r. r ! j) (mrows M)"

text \<open>
  \<open>unpacked d s res s'\<close>: in the state \<open>s'\<close> the six device attributes hold the values
  of the result \<open>res\<close>, the generator rows split at the number of slack generators of
  \<open>s\<close> and divided by the base of the result.
\<close>

definition unpacked :: "real \<Rightarrow> system \<Rightarrow> result \<Rightarrow> system \<Rightarrow> bool" where
  "unpacked d s res s' \<longleftrightarrow>
     (\<exists>k. Slack_n s = Inr k
        \<and> sys_attr s' ''Slack'' ''p''
            = Some (NdArray (map (\<lambda>x. Num (x / res_baseMVA res)) (take k (the_col (res_gen res) 1))))
        \<and> sys_attr s' ''Slack'' ''q''
            = Some (NdArray (map (\<lambda>x. Num (x / res_baseMVA res)) (take k (the_col (res_gen res) 2))))
        \<and> sys_attr s' ''PV'' ''p''
            = Some (NdArray (map (\<lambda>x. Num (x / res_baseMVA res)) (drop k (the_col (res_gen res) 1))))
        \<and> sys_attr s' ''PV'' ''q''
            = Some (NdArray (map (\<lambda>x. Num (x / res_baseMVA res)) (drop k (the_col (res_gen res) 2))))
        \<and> sys_attr s' ''Bus'' ''v'' = Some (NdArray (map Num (the_col (res_bus res) 7)))
        \<and> sys_attr s' ''Bus'' ''a''
            = Some (NdArray (map (\<lambda>x. Num (x * d)) (the_col (res_bus res) 8))))"





text \<open>
  An identifier index as registration leaves it: the identifiers are distinct and each
  is mapped to its place in the order of registration.
\<close>

definition wf_index :: "model \<Rightarrow> bool" where
  "wf_index m \<longleftrightarrow>
     distinct (idx_v m) \<and> list_all (\<lambda>k. uid m (idx_v m ! k) = Some k) [0..<length (idx_v m)]"

text \<open>
  The addresses of the arrays that hold an attribute in the member collections of a
  group, and the array that results from writing one value at several positions.
\<close>

definition group_addrs :: "system \<Rightarrow> grp \<Rightarrow> string \<Rightarrow> string \<Rightarrow> addr list" where
  "group_addrs sys g s atr =
     List.map_filter
       (\<lambda>nm. case member_model sys nm of Some m \<Rightarrow> attr_addr m s atr | None \<Rightarrow> None)
       (members g)"

definition write_all :: "arr \<Rightarrow> nat list \<Rightarrow> val \<Rightarrow> arr" where
  "write_all x us v = foldl (\<lambda>y u. arr_update y u v) x us"

text \<open>The score of a generator in the data frame.\<close>

definition score :: "ident list \<Rightarrow> real list \<Rightarrow> ident \<Rightarrow> real" where
  "score ids ws i = the (map_of (zip ids ws) i)"

section \<open>Example data\<close>

text \<open>
  A small system: three buses 101, 102, 103, two PV generators 10 and 11, one slack
  generator 1, the group of the generators and the group of the buses, and two objects
  that are neither collections nor groups.
\<close>

definition bus_example :: model where
  "bus_example = \<lparr>class_name = ''Bus'', group = ''ACTopology'',
     idx_v = [IntId 101, IntId 102, IntId 103],
     uid = [IntId 101 \<mapsto> 0, IntId 102 \<mapsto> 1, IntId 103 \<mapsto> 2],
     params = [''v'' \<mapsto> [''v'' \<mapsto> 3], ''a'' \<mapsto> [''v'' \<mapsto> 4]]\<rparr>"

definition pv_example :: model where
  "pv_example = \<lparr>class_name = ''PV'', group = ''StaticGen'',
     idx_v = [IntId 10, IntId 11],
     uid = [IntId 10 \<mapsto> 0, IntId 11 \<mapsto> 1],
     params = [''p'' \<mapsto> [''v'' \<mapsto> 0], ''name'' \<mapsto> [''v'' \<mapsto> 1],
               ''q'' \<mapsto> [''v'' \<mapsto> 2]]\<rparr>"

definition slack_example :: model where
  "slack_example = \<lparr>class_name = ''Slack'', group = ''StaticGen'',
     idx_v = [IntId 1],
     uid = [IntId 1 \<mapsto> 0],
     params = [''p'' \<mapsto> [''v'' \<mapsto> 5], ''q'' \<mapsto> [''v'' \<mapsto> 6]]\<rparr>"

definition heap_example :: heap where
  "heap_example =
     (\<lambda>a. PyList [])
      (0 := NdArray [Num 1.5, Num 2.5],
       1 := PyList [Num 1.5, Num 2.5],
       2 := NdArray [Num 0.2, Num 0.3],
       3 := NdArray [Num 1, Num 1, Num 1],
       4 := NdArray [Num 0, Num 0, Num 0],
       5 := NdArray [Num 0.7],
       6 := NdArray [Num 0.1])"

definition sys_example :: system where
  "sys_example = \<lparr>heap = heap_example, nxt = 20,
     objs = [''Bus'' \<mapsto> ObjModel bus_example, ''PV'' \<mapsto> ObjModel pv_example,
             ''Slack'' \<mapsto> ObjModel slack_example,
             ''StaticGen'' \<mapsto> ObjGroup \<lparr>members = [''PV'', ''Slack'']\<rparr>,
             ''ACTopology'' \<mapsto> ObjGroup \<lparr>members = [''Bus'']\<rparr>,
             ''config'' \<mapsto> ObjOther False, ''DCPF'' \<mapsto> ObjOther True],
     routines = [''DCPF'', ''ACOPF''], recent = None\<rparr>"

text \<open>
  A solver result for it, in a base of 100: the generator rows come slack first, with
  the active power in column 1 and the reactive power in column 2; the bus rows carry
  the voltage magnitude in column 7 and the angle, in degrees, in column 8.
\<close>

definition res_example :: result where
  "res_example = \<lparr>res_baseMVA = 100,
     res_bus = \<lparr>ncols = 9, mrows =
       [[101, 3, 0, 0, 0, 0, 1, 1.02, 0],
        [102, 2, 0, 0, 0, 0, 1, 1.01, 90],
        [103, 1, 0, 0, 0, 0, 1, 0.99, -180]]\<rparr>,
     res_gen = \<lparr>ncols = 3, mrows = [[101, 70, 10], [102, 160, 20], [103, 240, 30]]\<rparr>,
     res_success = False, res_f = 42\<rparr>"

text \<open>
  The routine variables of \<open>DCPFlowModel\<close> (\<open>aBus\<close> of the collection Bus, \<open>pg\<close> of
  the group StaticGen), a routine holding them, and one whose first variable names an
  owner the system does not have.
\<close>

definition aBus_example :: var where
  "aBus_example = \<lparr>var_owner_name = Some ''Bus'', var_src = Some ''a'', var_v = None\<rparr>"

definition pg_example :: var where
  "pg_example = \<lparr>var_owner_name = Some ''StaticGen'', var_src = Some ''p'', var_v = None\<rparr>"

definition rt_example :: routine where
  "rt_example = \<lparr>rt_class_name = ''DCPF'', is_setup = True, exit_code = 0, exec_time = 0,
     vars = [(''aBus'', aBus_example), (''pg'', pg_example)],
     ralgebs = [(''aBus'', aBus_example), (''pg'', pg_example)],
     obj_v = None, warned = []\<rparr>"

definition setup_example :: "system \<times> routine \<Rightarrow> error + system \<times> routine" where
  "setup_example st = Inr (fst st, (snd st)\<lparr>is_setup := True\<rparr>)"

definition solve_example :: "system \<times> routine \<Rightarrow> error + result \<times> bool" where
  "solve_example st = Inr (res_example, False)"

definition solve2_example :: "system \<times> routine \<Rightarrow> error + result" where
  "solve2_example st = Inr res_example"

definition setup_fails :: "system \<times> routine \<Rightarrow> error + system \<times> routine" where
  "setup_fails st = Inl ValueError"

definition rt_unresolved :: routine where
  "rt_unresolved = rt_example\<lparr>vars :=
     [(''x'', \<lparr>var_owner_name = Some ''Area'', var_src = Some ''p'', var_v = None\<rparr>),
      (''pg'', pg_example)]\<rparr>"

text \<open>Three parameter references: one with an explicit value, one bound to the group
  StaticGen, one bound to the collection PV.\<close>

definition rp_explicit :: rparam where
  "rp_explicit = RParam_init (Some ''c'') None None (Some (Arr (NdArray [Num 7, Num 8])))"

definition rp_group :: rparam where
  "rp_group = (RParam_init (Some ''pg0'') (Some ''p'') (Some ''StaticGen'') None)
     \<lparr>is_group := True, owner := Some ''StaticGen''\<rparr>"

definition rp_single :: rparam where
  "rp_single = (RParam_init (Some ''p'') None (Some ''PV'') None)\<lparr>owner := Some ''PV''\<rparr>"



text \<open>
  A system for unit commitment: four PV generators 1 to 4, all online, with their
  capacities, a slack generator 9, and one cost device per PV generator (101 to 104).
\<close>

definition uc_pv :: model where
  "uc_pv = \<lparr>class_name = ''PV'', group = ''StaticGen'',
     idx_v = [IntId 1, IntId 2, IntId 3, IntId 4],
     uid = [IntId 1 \<mapsto> 0, IntId 2 \<mapsto> 1, IntId 3 \<mapsto> 2, IntId 4 \<mapsto> 3],
     params = [''u'' \<mapsto> [''v'' \<mapsto> 0], ''Sn'' \<mapsto> [''v'' \<mapsto> 1],
               ''bus'' \<mapsto> [''v'' \<mapsto> 2], ''zone'' \<mapsto> [''v'' \<mapsto> 3]]\<rparr>"

definition uc_slack :: model where
  "uc_slack = \<lparr>class_name = ''Slack'', group = ''StaticGen'',
     idx_v = [IntId 9], uid = [IntId 9 \<mapsto> 0],
     params = [''u'' \<mapsto> [''v'' \<mapsto> 7]]\<rparr>"

definition uc_gcost :: model where
  "uc_gcost = \<lparr>class_name = ''GCost'', group = ''Cost'',
     idx_v = [IntId 101, IntId 102, IntId 103, IntId 104],
     uid = [IntId 101 \<mapsto> 0, IntId 102 \<mapsto> 1, IntId 103 \<mapsto> 2, IntId 104 \<mapsto> 3],
     params = [''c2'' \<mapsto> [''v'' \<mapsto> 4], ''c1'' \<mapsto> [''v'' \<mapsto> 5],
               ''c0'' \<mapsto> [''v'' \<mapsto> 6]]\<rparr>"

definition uc_heap :: heap where
  "uc_heap =
     (\<lambda>a. PyList [])
      (0 := NdArray [Num 1, Num 1, Num 1, Num 1],
       1 := NdArray [Num 100, Num 200, Num 50, Num 80],
       2 := PyList [Idv (IntId 101), Idv (IntId 102), Idv (IntId 103), Idv (IntId 103)],
       3 := PyList [Idv (StrId ''Z1''), Idv (StrId ''Z1''), Idv (StrId ''Z2''), Idv (StrId ''Z2'')],
       4 := NdArray [Num 0.01, Num 0.02, Num 0.03, Num 0.04],
       5 := NdArray [Num 20, Num 10, Num 30, Num 15],
       6 := NdArray [Num 0, Num 0, Num 0, Num 0],
       7 := NdArray [Num 1])"

definition uc_sys :: system where
  "uc_sys = \<lparr>heap = uc_heap, nxt = 8,
     objs = [''PV'' \<mapsto> ObjModel uc_pv, ''Slack'' \<mapsto> ObjModel uc_slack,
             ''GCost'' \<mapsto> ObjModel uc_gcost,
             ''StaticGen'' \<mapsto> ObjGroup \<lparr>members = [''PV'', ''Slack'']\<rparr>],
     routines = [''UC''], recent = None\<rparr>"

definition find_idx_example :: "system \<Rightarrow> ident list \<Rightarrow> error + ident list" where
  "find_idx_example sys vals =
     Inr (map (\<lambda>i. case i of IntId k \<Rightarrow> IntId (100 + k) | StrId s \<Rightarrow> StrId s) vals)"

text \<open>The same system with generator 2 offline.\<close>

definition uc_sys_offline :: system where
  "uc_sys_offline = uc_sys\<lparr>heap := uc_heap(0 := NdArray [Num 1, Num 0, Num 1, Num 1])\<rparr>"

section \<open>Properties of the identifier index\<close>

lemma resolve_all_ok:
  "\<forall>x \<in> set xs. f x = Inr (g x) \<Longrightarrow> resolve_all f xs = Inr (map g xs)"
  by (induction xs) auto

lemma list_flatten_lists: "list_flatten (map IList yss) = Inr (concat yss)"
  by (induction yss) auto

text \<open>
  C9. Resolving \<open>None\<close> returns \<open>None\<close> itself and raises nothing, as a scalar and as an
  entry of a sequence, whereas an identifier that is not registered raises KeyError.
  Whether a \<open>None\<close> position is acceptable is thus left to the caller.
\<close>

theorem idx2uid_none_verbatim:
  "idx2uid m ArgNone = Inr UNone
   \<and> idx2uid m (ArgSeq [INone]) = Inr (UList [None])
   \<and> (uid m i = None \<longrightarrow> idx2uid m (ArgAtom i) = Inl KeyError)"
  by (simp add: idx2uid_def resolve_item_def one_idx2uid_def)

theorem idx2uid_none_verbatim_witness:
  "idx2uid bus_example ArgNone = Inr UNone
   \<and> idx2uid bus_example (ArgSeq [INone]) = Inr (UList [None])
   \<and> uid bus_example (IntId 999) = None
   \<and> idx2uid bus_example (ArgAtom (IntId 999)) = Inl KeyError"
  using idx2uid_none_verbatim [of bus_example "IntId 999"] by (simp add: bus_example_def)

text \<open>
  C4. On a sequence of registered identifiers \<open>idx2uid\<close> returns the position of each
  one, in the order of the input and with its length, repeats included; on a registered
  scalar it returns its one position; and a list of lists of registered identifiers is
  resolved as the concatenation of the inner lists, that is, flattened one level.
\<close>

theorem idx2uid_order_preserving:
  "((\<forall>i \<in> set xs. uid m i \<noteq> None) \<longrightarrow>
      idx2uid m (ArgSeq (map IAtom xs)) = Inr (UList (map (uid m) xs)))
   \<and> (uid m i = Some u \<longrightarrow> idx2uid m (ArgAtom i) = Inr (UOne u))
   \<and> ((\<forall>ys \<in> set xss. \<forall>i \<in> set ys. uid m i \<noteq> None) \<longrightarrow>
      idx2uid m (ArgSeq (map (\<lambda>ys. IList (map NAtom ys)) xss))
        = Inr (UList (map (uid m) (concat xss))))"
proof -
  have a: "idx2uid m (ArgSeq (map IAtom xs)) = Inr (UList (map (uid m) xs))"
    if h: "\<forall>i \<in> set xs. uid m i \<noteq> None"
  proof -
    have "resolve_all (resolve_item m) (map IAtom xs)
        = Inr (map (\<lambda>x. case x of IAtom i \<Rightarrow> uid m i | _ \<Rightarrow> None) (map IAtom xs))"
      using h by (intro resolve_all_ok) (auto simp: resolve_item_def one_idx2uid_def)
    then show ?thesis by (cases xs) (simp_all add: idx2uid_def comp_def)
  qed
  have b: "idx2uid m (ArgAtom i) = Inr (UOne u)" if "uid m i = Some u"
    using that by (simp add: idx2uid_def one_idx2uid_def)
  have c: "idx2uid m (ArgSeq (map (\<lambda>ys. IList (map NAtom ys)) xss))
        = Inr (UList (map (uid m) (concat xss)))"
    if h: "\<forall>ys \<in> set xss. \<forall>i \<in> set ys. uid m i \<noteq> None"
  proof (cases xss)
    case Nil
    then show ?thesis by (simp add: idx2uid_def)
  next
    case (Cons ys yss)
    have fl: "list_flatten (map (\<lambda>ys. IList (map NAtom ys)) xss)
        = Inr (map NAtom (concat xss))"
      using list_flatten_lists [of "map (map NAtom) xss"] by (simp add: comp_def map_concat)
    have "resolve_all (resolve_inner m) (map NAtom (concat xss))
        = Inr (map (\<lambda>x. case x of NAtom i \<Rightarrow> uid m i | _ \<Rightarrow> None)
                 (map NAtom (concat xss)))"
      using h by (intro resolve_all_ok) (force simp: resolve_inner_def one_idx2uid_def)
    then show ?thesis using fl Cons by (simp add: idx2uid_def comp_def)
  qed
  show ?thesis using a b c by blast
qed

theorem idx2uid_order_preserving_witness:
  "uid bus_example (IntId 101) = Some 0 \<and> uid bus_example (IntId 103) = Some 2
   \<and> idx2uid bus_example (ArgSeq (map IAtom [IntId 103, IntId 101, IntId 103]))
       = Inr (UList [Some 2, Some 0, Some 2])
   \<and> uid bus_example (IntId 102) = Some 1
   \<and> idx2uid bus_example (ArgAtom (IntId 102)) = Inr (UOne 1)
   \<and> idx2uid bus_example
         (ArgSeq (map (\<lambda>ys. IList (map NAtom ys)) [[IntId 103], [IntId 101, IntId 102]]))
       = Inr (UList [Some 2, Some 0, Some 1])"
  using idx2uid_order_preserving [of "[IntId 103, IntId 101, IntId 103]" bus_example
      "IntId 102" 1 "[[IntId 103], [IntId 101, IntId 102]]"]
  by (simp add: bus_example_def)

section \<open>Properties of the accessor\<close>

lemma pick_all_ok:
  "\<forall>u \<in> set us. \<forall>i. u = Some i \<longrightarrow> i < length xs \<Longrightarrow>
   pick_all xs d us = Inr (map (\<lambda>u. case u of None \<Rightarrow> d | Some i \<Rightarrow> xs ! i) us)"
  by (induction xs d us rule: pick_all.induct) auto

text \<open>
  The list path of the accessor. When the attribute is stored as a plain Python list
  and the identifiers are a sequence that resolves to the positions \<open>us\<close>: with
  \<open>allow_none\<close> false and a \<open>None\<close> among the positions \<open>get\<close> raises KeyError; with
  \<open>allow_none\<close> true (and the positions inside the list) it returns the entries in the
  order of the identifiers, with \<open>default\<close> in place of each \<open>None\<close>.
\<close>

lemma Model_get_list_allow_none:
  assumes "params m s = Some inst" and "inst attr = Some a" and "h a = PyList xs"
    and "idx2uid m (ArgSeq items) = Inr (UList us)"
  shows "(\<not> allow_none \<and> None \<in> set us \<longrightarrow>
            Model_get h m s (ArgSeq items) attr allow_none dflt = Inl KeyError)
       \<and> (allow_none \<and> (\<forall>u \<in> set us. \<forall>i. u = Some i \<longrightarrow> i < length xs) \<longrightarrow>
            Model_get h m s (ArgSeq items) attr allow_none dflt
              = Inr (Arr (PyList (map (\<lambda>u. case u of None \<Rightarrow> dflt | Some i \<Rightarrow> xs ! i) us))))"
  using assms by (auto simp: Model_get_def pick_all_ok)

text \<open>
  The array path of the accessor. When the attribute is stored as a NumPy array and a
  \<open>None\<close> is among the resolved positions of a sequence of identifiers, \<open>get\<close> raises
  IndexError, whatever \<open>allow_none\<close> and \<open>default\<close> are: neither is consulted.
\<close>

lemma Model_get_ndarray_none:
  assumes "params m s = Some inst" and "inst attr = Some a" and "h a = NdArray xs"
    and "idx2uid m (ArgSeq items) = Inr (UList us)" and "None \<in> set us"
  shows "Model_get h m s (ArgSeq items) attr allow_none dflt = Inl IndexError"
  using assms by (simp add: Model_get_def nd_getitem_def)

text \<open>
  C5, at a failing input. The attribute \<open>p\<close> of the generators is stored as a NumPy
  array, as every numeric attribute is after \<open>list2array\<close>. The call of scenario C,
  \<open>get('p', [10, None], allow_none=True, default=0.0)\<close>, raises IndexError instead of
  returning the value at 10 followed by the default, and with \<open>allow_none\<close> false the
  exception is the IndexError of the array, not the KeyError of the accessor. On the
  attribute \<open>name\<close>, stored as a plain list with the same entries, the same two calls
  do what the docstring of \<open>get\<close> says.
\<close>

theorem Model_get_ndarray_ignores_allow_none:
  "Model_get heap_example pv_example ''p'' (ArgSeq [IAtom (IntId 10), INone]) ''v'' True (Num 0)
     = Inl IndexError
   \<and> Model_get heap_example pv_example ''p'' (ArgSeq [IAtom (IntId 10), INone]) ''v'' False (Num 0)
     = Inl IndexError
   \<and> Model_get heap_example pv_example ''name'' (ArgSeq [IAtom (IntId 10), INone]) ''v''
       True (Num 0) = Inr (Arr (PyList [Num 1.5, Num 0]))
   \<and> Model_get heap_example pv_example ''name'' (ArgSeq [IAtom (IntId 10), INone]) ''v''
       False (Num 0) = Inl KeyError"
  by (simp add: Model_get_def idx2uid_def resolve_item_def one_idx2uid_def pv_example_def
      heap_example_def nd_getitem_def)

section \<open>Properties of \<open>unpack\<close>\<close>

lemma setattr_v_Inr:
  assumes "setattr_v sys onm p x = Inr s'"
  obtains m inst where "objs sys onm = Some (ObjModel m)" and "params m p = Some inst"
    and "s' = sys\<lparr>heap := (heap sys)(nxt sys := x), nxt := Suc (nxt sys),
           objs := (objs sys)(onm \<mapsto>
             ObjModel (m\<lparr>params := (params m)(p \<mapsto> inst(''v'' \<mapsto> nxt sys))\<rparr>))\<rparr>"
  using assms by (auto simp: setattr_v_def split: option.splits sysobj.splits)

lemma setattr_v_succeeds:
  "has_param sys onm p \<Longrightarrow> \<exists>s'. setattr_v sys onm p x = Inr s'"
  by (auto simp: setattr_v_def has_param_def)

lemma setattr_v_has_param:
  "setattr_v sys onm p x = Inr s' \<Longrightarrow> has_param sys onm' p' \<Longrightarrow> has_param s' onm' p'"
  by (erule setattr_v_Inr) (auto simp: has_param_def)

lemma setattr_v_new:
  "setattr_v sys onm p x = Inr s' \<Longrightarrow> bound_to s' onm p (nxt sys) x"
  by (erule setattr_v_Inr) (auto simp: bound_to_def sys_attr_addr_def member_model_def attr_addr_def)

lemma setattr_v_other:
  "setattr_v sys onm p x = Inr s' \<Longrightarrow> bound_to sys onm' p' a y \<Longrightarrow> (onm', p') \<noteq> (onm, p)
   \<Longrightarrow> bound_to s' onm' p' a y"
  by (erule setattr_v_Inr)
    (auto simp: bound_to_def sys_attr_addr_def member_model_def attr_addr_def
      split: option.splits sysobj.splits)

lemma setattr_v_Slack_n:
  "setattr_v sys onm p x = Inr s' \<Longrightarrow> Slack_n s' = Slack_n sys"
  by (erule setattr_v_Inr) (auto simp: Slack_n_def Model_n_def)

lemma setattr_v_frame:
  "setattr_v sys onm p x = Inr s' \<Longrightarrow>
   routines s' = routines sys \<and> recent s' = recent sys \<and> nxt s' = Suc (nxt sys)
   \<and> (\<forall>a. a \<noteq> nxt sys \<longrightarrow> heap s' a = heap sys a)"
  by (erule setattr_v_Inr) auto

lemma bind_err_Inr: "bind_err x k = Inr y \<longleftrightarrow> (\<exists>a. x = Inr a \<and> k a = Inr y)"
  by (cases x) (auto simp: bind_err_def)

lemma bound_to_attr: "bound_to sys onm p a x \<Longrightarrow> sys_attr sys onm p = Some x"
  by (simp add: bound_to_def sys_attr_def)

lemma unpack_devices_result:
  assumes "unpack_devices d sys res = Inr s'"
  shows "\<exists>vm va pg qg k. col (res_bus res) 7 = Inr vm \<and> col (res_bus res) 8 = Inr va
     \<and> col (res_gen res) 1 = Inr pg \<and> col (res_gen res) 2 = Inr qg \<and> Slack_n sys = Inr k
     \<and> bound_to s' ''Bus'' ''v'' (nxt sys) (NdArray (map Num vm))
     \<and> bound_to s' ''Bus'' ''a'' (nxt sys + 1) (NdArray (map (\<lambda>x. Num (x * d)) va))
     \<and> bound_to s' ''PV'' ''p'' (nxt sys + 2) (NdArray (map (\<lambda>x. Num (x / res_baseMVA res)) (drop k pg)))
     \<and> bound_to s' ''PV'' ''q'' (nxt sys + 3) (NdArray (map (\<lambda>x. Num (x / res_baseMVA res)) (drop k qg)))
     \<and> bound_to s' ''Slack'' ''p'' (nxt sys + 4) (NdArray (map (\<lambda>x. Num (x / res_baseMVA res)) (take k pg)))
     \<and> bound_to s' ''Slack'' ''q'' (nxt sys + 5) (NdArray (map (\<lambda>x. Num (x / res_baseMVA res)) (take k qg)))
     \<and> nxt s' = nxt sys + 6 \<and> routines s' = routines sys \<and> recent s' = recent sys
     \<and> (\<forall>a. a < nxt sys \<longrightarrow> heap s' a = heap sys a)"
proof -
  from assms obtain vm s1 va s2 k1 p1 s3 k2 q1 s4 k3 p2 s5 k4 q2 where
    c7: "col (res_bus res) 7 = Inr vm" and
    w1: "setattr_v sys ''Bus'' ''v'' (NdArray (map Num vm)) = Inr s1" and
    c8: "col (res_bus res) 8 = Inr va" and
    w2: "setattr_v s1 ''Bus'' ''a'' (NdArray (map (\<lambda>x. Num (x * d)) va)) = Inr s2" and
    k1: "Slack_n s2 = Inr k1" and p1: "col (res_gen res) 1 = Inr p1" and
    w3: "setattr_v s2 ''PV'' ''p'' (NdArray (map (\<lambda>x. Num (x / res_baseMVA res)) (drop k1 p1))) = Inr s3" and
    k2: "Slack_n s3 = Inr k2" and q1: "col (res_gen res) 2 = Inr q1" and
    w4: "setattr_v s3 ''PV'' ''q'' (NdArray (map (\<lambda>x. Num (x / res_baseMVA res)) (drop k2 q1))) = Inr s4" and
    k3: "Slack_n s4 = Inr k3" and p2: "col (res_gen res) 1 = Inr p2" and
    w5: "setattr_v s4 ''Slack'' ''p'' (NdArray (map (\<lambda>x. Num (x / res_baseMVA res)) (take k3 p2))) = Inr s5" and
    k4: "Slack_n s5 = Inr k4" and q2: "col (res_gen res) 2 = Inr q2" and
    w6: "setattr_v s5 ''Slack'' ''q'' (NdArray (map (\<lambda>x. Num (x / res_baseMVA res)) (take k4 q2))) = Inr s'"
    unfolding unpack_devices_def Let_def bind_err_Inr by blast
  have ks: "Slack_n sys = Inr k1" "k2 = k1" "k3 = k1" "k4 = k1"
    using k1 k2 k3 k4 setattr_v_Slack_n [OF w1] setattr_v_Slack_n [OF w2]
      setattr_v_Slack_n [OF w3] setattr_v_Slack_n [OF w4] setattr_v_Slack_n [OF w5]
    by simp_all
  have eqs: "p2 = p1" "q2 = q1" using p1 p2 q1 q2 by simp_all
  note f1 = setattr_v_frame [OF w1] and f2 = setattr_v_frame [OF w2]
    and f3 = setattr_v_frame [OF w3] and f4 = setattr_v_frame [OF w4]
    and f5 = setattr_v_frame [OF w5] and f6 = setattr_v_frame [OF w6]
  have n: "nxt s1 = nxt sys + 1" "nxt s2 = nxt sys + 2" "nxt s3 = nxt sys + 3"
    "nxt s4 = nxt sys + 4" "nxt s5 = nxt sys + 5" "nxt s' = nxt sys + 6"
    using f1 f2 f3 f4 f5 f6 by simp_all
  have b1: "bound_to s' ''Bus'' ''v'' (nxt sys) (NdArray (map Num vm))"
    using setattr_v_new [OF w1]
    by (intro setattr_v_other [OF w6] setattr_v_other [OF w5] setattr_v_other [OF w4]
        setattr_v_other [OF w3] setattr_v_other [OF w2]) simp_all
  have b2: "bound_to s' ''Bus'' ''a'' (nxt sys + 1) (NdArray (map (\<lambda>x. Num (x * d)) va))"
    using setattr_v_new [OF w2] n
    by (intro setattr_v_other [OF w6] setattr_v_other [OF w5] setattr_v_other [OF w4]
        setattr_v_other [OF w3]) simp_all
  have b3: "bound_to s' ''PV'' ''p'' (nxt sys + 2)
      (NdArray (map (\<lambda>x. Num (x / res_baseMVA res)) (drop k1 p1)))"
    using setattr_v_new [OF w3] n
    by (intro setattr_v_other [OF w6] setattr_v_other [OF w5] setattr_v_other [OF w4]) simp_all
  have b4: "bound_to s' ''PV'' ''q'' (nxt sys + 3)
      (NdArray (map (\<lambda>x. Num (x / res_baseMVA res)) (drop k1 q1)))"
    using setattr_v_new [OF w4] n ks
    by (intro setattr_v_other [OF w6] setattr_v_other [OF w5]) simp_all
  have b5: "bound_to s' ''Slack'' ''p'' (nxt sys + 4)
      (NdArray (map (\<lambda>x. Num (x / res_baseMVA res)) (take k1 p1)))"
    using setattr_v_new [OF w5] n ks eqs
    by (intro setattr_v_other [OF w6]) simp_all
  have b6: "bound_to s' ''Slack'' ''q'' (nxt sys + 5)
      (NdArray (map (\<lambda>x. Num (x / res_baseMVA res)) (take k1 q1)))"
    using setattr_v_new [OF w6] n ks eqs by simp
  have fr: "routines s' = routines sys" "recent s' = recent sys"
    using f1 f2 f3 f4 f5 f6 by simp_all
  have hp: "\<forall>a. a < nxt sys \<longrightarrow> heap s' a = heap sys a"
    using f1 f2 f3 f4 f5 f6 n by simp
  show ?thesis
    using c7 c8 p1 q1 ks(1) b1 b2 b3 b4 b5 b6 n(6) fr hp by blast
qed


lemma Slack_n_succeeds: "has_param sys ''Slack'' p \<Longrightarrow> \<exists>k. Slack_n sys = Inr k"
  by (auto simp: has_param_def Slack_n_def)

lemma unpack_devices_succeeds:
  assumes "has_param sys ''Bus'' ''v''" "has_param sys ''Bus'' ''a''"
    "has_param sys ''PV'' ''p''" "has_param sys ''PV'' ''q''"
    "has_param sys ''Slack'' ''p''" "has_param sys ''Slack'' ''q''"
    and "col (res_bus res) 7 = Inr vm" "col (res_bus res) 8 = Inr va"
    and "col (res_gen res) 1 = Inr pg" "col (res_gen res) 2 = Inr qg"
  shows "\<exists>s'. unpack_devices d sys res = Inr s'"
proof -
  obtain s1 where w1: "setattr_v sys ''Bus'' ''v'' (NdArray (map Num vm)) = Inr s1"
    using setattr_v_succeeds assms(1) by blast
  note h1 = setattr_v_has_param [OF w1]
  obtain s2 where w2: "setattr_v s1 ''Bus'' ''a'' (NdArray (map (\<lambda>x. Num (x * d)) va)) = Inr s2"
    using setattr_v_succeeds h1 assms(2) by blast
  note h2 = setattr_v_has_param [OF w2]
  obtain k1 where k1: "Slack_n s2 = Inr k1"
    using Slack_n_succeeds h2 h1 assms(5) by blast
  obtain s3 where w3: "setattr_v s2 ''PV'' ''p''
      (NdArray (map (\<lambda>x. Num (x / res_baseMVA res)) (drop k1 pg))) = Inr s3"
    using setattr_v_succeeds h2 h1 assms(3) by blast
  note h3 = setattr_v_has_param [OF w3]
  obtain k2 where k2: "Slack_n s3 = Inr k2"
    using Slack_n_succeeds h3 h2 h1 assms(5) by blast
  obtain s4 where w4: "setattr_v s3 ''PV'' ''q''
      (NdArray (map (\<lambda>x. Num (x / res_baseMVA res)) (drop k2 qg))) = Inr s4"
    using setattr_v_succeeds h3 h2 h1 assms(4) by blast
  note h4 = setattr_v_has_param [OF w4]
  obtain k3 where k3: "Slack_n s4 = Inr k3"
    using Slack_n_succeeds h4 h3 h2 h1 assms(5) by blast
  obtain s5 where w5: "setattr_v s4 ''Slack'' ''p''
      (NdArray (map (\<lambda>x. Num (x / res_baseMVA res)) (take k3 pg))) = Inr s5"
    using setattr_v_succeeds h4 h3 h2 h1 assms(5) by blast
  note h5 = setattr_v_has_param [OF w5]
  obtain k4 where k4: "Slack_n s5 = Inr k4"
    using Slack_n_succeeds h5 h4 h3 h2 h1 assms(5) by blast
  obtain s6 where w6: "setattr_v s5 ''Slack'' ''q''
      (NdArray (map (\<lambda>x. Num (x / res_baseMVA res)) (take k4 qg))) = Inr s6"
    using setattr_v_succeeds h5 h4 h3 h2 h1 assms(6) by blast
  show ?thesis
    unfolding unpack_devices_def Let_def
    by (simp only: bind_err_def assms(7-10) w1 w2 w3 w4 w5 w6 k1 k2 k3 k4 sum.case) blast
qed

lemma set_recent_Inr:
  "set_recent s cn = Inr s' \<Longrightarrow> s' = s\<lparr>recent := Some cn\<rparr>"
  by (auto simp: set_recent_def split: if_splits)

lemma bound_to_recent:
  "bound_to (s\<lparr>recent := c\<rparr>) onm p a x = bound_to s onm p a x"
  by (simp add: bound_to_def sys_attr_addr_def member_model_def)

lemma DCPF_unpack_Inr:
  assumes "DCPF_unpack d sys r res = Inr (s', r')"
  shows "\<exists>s1 ys ws. unpack_devices d sys res = Inr s1
    \<and> unpack_vars s1 (vars r) = Inr (ys, ws)
    \<and> rt_class_name r \<in> set (routines s1)
    \<and> s' = s1\<lparr>recent := Some (rt_class_name r)\<rparr>
    \<and> r' = r\<lparr>vars := ys, warned := warned r @ ws\<rparr>"
  using assms
  by (auto simp: DCPF_unpack_def bind_err_def set_recent_def
      split: sum.splits if_splits prod.splits)

lemma ACOPF_unpack_Inr:
  assumes "ACOPF_unpack d sys r res = Inr (s', r')"
  shows "\<exists>s1 ys ws. unpack_devices d sys res = Inr s1
    \<and> unpack_vars s1 (ralgebs r) = Inr (ys, ws)
    \<and> rt_class_name r \<in> set (routines s1)
    \<and> s' = s1\<lparr>recent := Some (rt_class_name r)\<rparr>
    \<and> r' = r\<lparr>ralgebs := ys, warned := warned r @ ws, obj_v := Some (res_f res)\<rparr>"
  using assms
  by (auto simp: ACOPF_unpack_def bind_err_def set_recent_def
      split: sum.splits if_splits prod.splits)

lemma unpack_writes:
  assumes "DCPF_unpack d sys r res = Inr (s', r') \<or> ACOPF_unpack d sys r res = Inr (s', r')"
  shows "\<exists>vm va pg qg k. col (res_bus res) 7 = Inr vm \<and> col (res_bus res) 8 = Inr va
     \<and> col (res_gen res) 1 = Inr pg \<and> col (res_gen res) 2 = Inr qg \<and> Slack_n sys = Inr k
     \<and> bound_to s' ''Bus'' ''v'' (nxt sys) (NdArray (map Num vm))
     \<and> bound_to s' ''Bus'' ''a'' (nxt sys + 1) (NdArray (map (\<lambda>x. Num (x * d)) va))
     \<and> bound_to s' ''PV'' ''p'' (nxt sys + 2) (NdArray (map (\<lambda>x. Num (x / res_baseMVA res)) (drop k pg)))
     \<and> bound_to s' ''PV'' ''q'' (nxt sys + 3) (NdArray (map (\<lambda>x. Num (x / res_baseMVA res)) (drop k qg)))
     \<and> bound_to s' ''Slack'' ''p'' (nxt sys + 4) (NdArray (map (\<lambda>x. Num (x / res_baseMVA res)) (take k pg)))
     \<and> bound_to s' ''Slack'' ''q'' (nxt sys + 5) (NdArray (map (\<lambda>x. Num (x / res_baseMVA res)) (take k qg)))
     \<and> (\<forall>a. a < nxt sys \<longrightarrow> heap s' a = heap sys a)"
proof -
  from assms obtain s1 c where u: "unpack_devices d sys res = Inr s1" and s': "s' = s1\<lparr>recent := c\<rparr>"
    using DCPF_unpack_Inr [of d sys r res s' r'] ACOPF_unpack_Inr [of d sys r res s' r'] by blast
  show ?thesis
    using unpack_devices_result [OF u] unfolding s' bound_to_recent by auto
qed


lemma col_the_col: "col M j = Inr xs \<Longrightarrow> xs = the_col M j"
  by (auto simp: col_def the_col_def split: if_splits)

lemmas example_defs = sys_example_def heap_example_def bus_example_def pv_example_def
  slack_example_def res_example_def rt_example_def aBus_example_def pg_example_def

lemmas unpack_defs = DCPF_unpack_def ACOPF_unpack_def unpack_devices_def bind_err_def col_def
  setattr_v_def Slack_n_def Model_n_def unpack_var_def set_recent_def Model_get_def
  Group_get_def Group_get_idx_def member_model_def idx2uid_def resolve_item_def
  one_idx2uid_def nd_getitem_def list_getitem_def sys_attr_def sys_attr_addr_def attr_addr_def

text \<open>
  C6. When \<open>unpack\<close> (of \<open>DCPFlowBase\<close> or of \<open>ACOPFBase\<close>) returns, and the base of the
  result is not zero: the first \<open>Slack.n\<close> rows of the generator array, in the solver's
  order, are written to the slack generators and the remaining rows to the PV
  generators, the active power from column 1 and the reactive power from column 2,
  each divided by the base \<open>res['baseMVA']\<close>; the bus voltage magnitude (column 7) and
  angle (column 8, times \<open>deg2rad\<close>) are written to the collection Bus.
\<close>

theorem unpack_generator_split:
  assumes "DCPF_unpack d sys r res = Inr (s', r') \<or> ACOPF_unpack d sys r res = Inr (s', r')"
    and "res_baseMVA res \<noteq> 0"
  shows "\<exists>k. Slack_n sys = Inr k
     \<and> sys_attr s' ''Slack'' ''p''
         = Some (NdArray (map (\<lambda>x. Num (x / res_baseMVA res)) (take k (the_col (res_gen res) 1))))
     \<and> sys_attr s' ''Slack'' ''q''
         = Some (NdArray (map (\<lambda>x. Num (x / res_baseMVA res)) (take k (the_col (res_gen res) 2))))
     \<and> sys_attr s' ''PV'' ''p''
         = Some (NdArray (map (\<lambda>x. Num (x / res_baseMVA res)) (drop k (the_col (res_gen res) 1))))
     \<and> sys_attr s' ''PV'' ''q''
         = Some (NdArray (map (\<lambda>x. Num (x / res_baseMVA res)) (drop k (the_col (res_gen res) 2))))
     \<and> sys_attr s' ''Bus'' ''v'' = Some (NdArray (map Num (the_col (res_bus res) 7)))
     \<and> sys_attr s' ''Bus'' ''a'' = Some (NdArray (map (\<lambda>x. Num (x * d)) (the_col (res_bus res) 8)))"
  using unpack_writes [OF assms(1)] by (auto dest!: col_the_col bound_to_attr)

theorem unpack_generator_split_witness:
  "res_baseMVA res_example \<noteq> 0
   \<and> (\<exists>s' r'. DCPF_unpack (1 / 60) sys_example rt_example res_example = Inr (s', r')
        \<and> Slack_n sys_example = Inr 1
        \<and> sys_attr s' ''Slack'' ''p'' = Some (NdArray [Num 0.7])
        \<and> sys_attr s' ''Slack'' ''q'' = Some (NdArray [Num 0.1])
        \<and> sys_attr s' ''PV'' ''p'' = Some (NdArray [Num 1.6, Num 2.4])
        \<and> sys_attr s' ''PV'' ''q'' = Some (NdArray [Num 0.2, Num 0.3])
        \<and> sys_attr s' ''Bus'' ''v'' = Some (NdArray [Num 1.02, Num 1.01, Num 0.99])
        \<and> sys_attr s' ''Bus'' ''a'' = Some (NdArray [Num 0, Num 1.5, Num (- 3)]))"
proof -
  have m: "res_baseMVA res_example \<noteq> 0"
    by (simp add: res_example_def)
  obtain s' r' where e: "DCPF_unpack (1 / 60) sys_example rt_example res_example = Inr (s', r')"
    by (simp add: unpack_defs example_defs)
  have k: "Slack_n sys_example = Inr 1"
    by (simp add: Slack_n_def Model_n_def sys_example_def slack_example_def)
  show ?thesis
    using unpack_generator_split [OF disjI1 [OF e] m] m e k
    by (simp add: the_col_def res_example_def)
qed


section \<open>Properties of parameter references\<close>

text \<open>
  C7. Reading \<open>RParam.v\<close> takes one of three paths, by the priority explicit, group,
  single: a reference that is set returns the value supplied at construction as it
  is (whether or not it is also bound to a group); otherwise a reference bound to a
  group returns what the group's \<open>get\<close> gives for the group's identifiers; otherwise
  the result is the array object the source attribute of the bound collection holds
  (that object, not a copy).
\<close>

theorem RParam_v_priority:
  "(is_set r \<and> v_priv r = Some x \<longrightarrow> RParam_v sys r = Inr (Val x))
   \<and> (\<not> is_set r \<and> is_group r \<and> owner r = Some onm \<and> objs sys onm = Some (ObjGroup g)
        \<and> src r = Some s \<longrightarrow>
        RParam_v sys r
          = (case Group_get sys g s (Group_get_idx sys g) ''v'' of
               Inl e \<Rightarrow> Inl e | Inr y \<Rightarrow> Inr (Val y)))
   \<and> (\<not> is_set r \<and> \<not> is_group r \<and> owner r = Some onm \<and> objs sys onm = Some (ObjModel m)
        \<and> src r = Some s \<and> attr_addr m s ''v'' = Some a \<longrightarrow>
        RParam_v sys r = Inr (Ref a) \<and> observe sys (Ref a) = Arr (heap sys a))"
  by (simp add: RParam_v_def observe_def)

theorem RParam_v_priority_witness:
  "RParam_v sys_example rp_explicit = Inr (Val (Arr (NdArray [Num 7, Num 8])))
   \<and> RParam_v sys_example (rp_explicit\<lparr>is_group := True, owner := Some ''StaticGen''\<rparr>)
       = Inr (Val (Arr (NdArray [Num 7, Num 8])))
   \<and> RParam_v sys_example rp_group = Inr (Val (Arr (NdArray [Num 1.5, Num 2.5, Num 0.7])))
   \<and> RParam_v sys_example rp_single = Inr (Ref 0)
   \<and> observe sys_example (Ref 0) = Arr (NdArray [Num 1.5, Num 2.5])"
proof -
  let ?g = "\<lparr>members = [''PV'', ''Slack'']\<rparr>"
  have g: "Group_get sys_example ?g ''p'' (Group_get_idx sys_example ?g) ''v''
      = Inr (Arr (NdArray [Num 1.5, Num 2.5, Num 0.7]))"
    by (simp add: unpack_defs example_defs)
  have 1: "RParam_v sys_example rp_explicit = Inr (Val (Arr (NdArray [Num 7, Num 8])))"
    using RParam_v_priority [of rp_explicit "Arr (NdArray [Num 7, Num 8])" sys_example]
    by (simp add: rp_explicit_def RParam_init_def)
  have 2: "RParam_v sys_example (rp_explicit\<lparr>is_group := True, owner := Some ''StaticGen''\<rparr>)
       = Inr (Val (Arr (NdArray [Num 7, Num 8])))"
    using RParam_v_priority [of "rp_explicit\<lparr>is_group := True, owner := Some ''StaticGen''\<rparr>"
        "Arr (NdArray [Num 7, Num 8])" sys_example]
    by (simp add: rp_explicit_def RParam_init_def)
  have 3: "RParam_v sys_example rp_group = Inr (Val (Arr (NdArray [Num 1.5, Num 2.5, Num 0.7])))"
    using RParam_v_priority [of rp_group _ sys_example "''StaticGen''" ?g "''p''"] g
    by (simp add: rp_group_def RParam_init_def sys_example_def)
  have 4: "RParam_v sys_example rp_single = Inr (Ref 0)
      \<and> observe sys_example (Ref 0) = Arr (NdArray [Num 1.5, Num 2.5])"
    using RParam_v_priority [of rp_single _ sys_example "''PV''" _ "''p''" pv_example 0]
    by (simp add: rp_single_def RParam_init_def sys_example_def pv_example_def attr_addr_def
        heap_example_def)
  show ?thesis using 1 2 3 4 by simp
qed


section \<open>Properties of \<open>run\<close>\<close>

lemma run_not_setup_again:
  "is_setup r \<Longrightarrow> DCPF_run d setup solve t (sys, r) = DCPF_run d setup2 solve t (sys, r)"
  "is_setup r \<Longrightarrow> ACOPF_run d setup solve' t (sys, r) = ACOPF_run d setup2 solve' t (sys, r)"
  by (simp_all add: DCPF_run_def ACOPF_run_def)

lemma unpack_keeps_codes:
  "DCPF_unpack d s r res = Inr (s', r') \<Longrightarrow> exit_code r' = exit_code r \<and> exec_time r' = exec_time r"
  "ACOPF_unpack d s r res = Inr (s', r') \<Longrightarrow> exit_code r' = exit_code r \<and> exec_time r' = exec_time r"
  using DCPF_unpack_Inr [of d s r res s' r'] ACOPF_unpack_Inr [of d s r res s' r'] by auto


lemma unpack_unpacked:
  assumes "DCPF_unpack d sys r res = Inr (s', r') \<or> ACOPF_unpack d sys r res = Inr (s', r')"
  shows "unpacked d sys res s'"
  unfolding unpacked_def
  using unpack_writes [OF assms] by (auto dest!: col_the_col bound_to_attr)


lemma DCPF_run_unfold:
  assumes "(if is_setup r then Inr (sys, r) else setup (sys, r)) = Inr (s1, r1)"
    and "solve (s1, r1) = Inr (res, ok)"
  shows "DCPF_run d setup solve t (sys, r)
      = (case DCPF_unpack d s1 (r1\<lparr>exit_code := (if ok then 0 else 1), exec_time := t\<rparr>) res of
           Inl e2 \<Rightarrow> Inl e2 | Inr (s2, r2) \<Rightarrow> Inr (exit_code r2 = 0, s2, r2))"
proof (cases "is_setup r")
  case True
  with assms show ?thesis
    by (simp add: DCPF_run_def bind_err_def split: sum.splits prod.splits)
next
  case False
  with assms show ?thesis
    by (simp add: DCPF_run_def bind_err_def split: sum.splits prod.splits)
qed

lemma ACOPF_run_unfold:
  assumes "(if is_setup r then Inr (sys, r) else setup (sys, r)) = Inr (s1, r1)"
    and "solve2 (s1, r1) = Inr res"
  shows "ACOPF_run d setup solve2 t (sys, r)
      = (case ACOPF_unpack d s1
                (r1\<lparr>exit_code := (if res_success res then 0 else 1), exec_time := t\<rparr>) res of
           Inl e2 \<Rightarrow> Inl e2 | Inr (s2, r2) \<Rightarrow> Inr (exit_code r2, s2, r2))"
proof -
  have eq: "r1\<lparr>exit_code := 1 - (if res_success res then 1 else 0), exec_time := t\<rparr>
      = r1\<lparr>exit_code := (if res_success res then 0 else 1), exec_time := t\<rparr>"
    by simp
  show ?thesis
  proof (cases "is_setup r")
    case True
    with assms show ?thesis
      unfolding ACOPF_run_def eq by (simp add: bind_err_def split: sum.splits prod.splits)
  next
    case False
    with assms show ?thesis
      unfolding ACOPF_run_def eq by (simp add: bind_err_def split: sum.splits prod.splits)
  qed
qed


lemma DCPF_run_result:
  assumes "(if is_setup r then Inr (sys, r) else setup (sys, r)) = Inr (s1, r1)"
    and "solve (s1, r1) = Inr (res, ok)"
    and "DCPF_run d setup solve t (sys, r) = Inr (b, s2, r2)"
  shows "b = ok \<and> exit_code r2 = (if ok then 0 else 1) \<and> exec_time r2 = t
    \<and> unpacked d s1 res s2
    \<and> DCPF_unpack d s1 (r1\<lparr>exit_code := (if ok then 0 else 1), exec_time := t\<rparr>) res = Inr (s2, r2)"
proof -
  let ?r = "r1\<lparr>exit_code := (if ok then 0 else 1), exec_time := t\<rparr>"
  from assms DCPF_run_unfold [of r sys "setup" s1 r1 solve res ok d t]
  have u: "DCPF_unpack d s1 ?r res = Inr (s2, r2)" and b: "b = (exit_code r2 = 0)"
    by (auto split: sum.splits)
  from unpack_keeps_codes(1) [OF u] have c: "exit_code r2 = (if ok then 0 else 1)" "exec_time r2 = t"
    by simp_all
  from unpack_unpacked [OF disjI1 [OF u]] have p: "unpacked d s1 res s2" .
  show ?thesis using u b c p by simp
qed

lemma ACOPF_run_result:
  assumes "(if is_setup r then Inr (sys, r) else setup (sys, r)) = Inr (s1, r1)"
    and "solve2 (s1, r1) = Inr res"
    and "ACOPF_run d setup solve2 t (sys, r) = Inr (c, s2, r2)"
  shows "c = (if res_success res then 0 else 1) \<and> exit_code r2 = c \<and> exec_time r2 = t
    \<and> unpacked d s1 res s2
    \<and> ACOPF_unpack d s1 (r1\<lparr>exit_code := (if res_success res then 0 else 1), exec_time := t\<rparr>) res
        = Inr (s2, r2)"
proof -
  let ?r = "r1\<lparr>exit_code := (if res_success res then 0 else 1), exec_time := t\<rparr>"
  from assms ACOPF_run_unfold [of r sys "setup" s1 r1 solve2 res d t]
  have u: "ACOPF_unpack d s1 ?r res = Inr (s2, r2)" and b: "c = exit_code r2"
    by (auto split: sum.splits)
  from unpack_keeps_codes(2) [OF u]
  have c: "exit_code r2 = (if res_success res then 0 else 1)" "exec_time r2 = t"
    by simp_all
  from unpack_unpacked [OF disjI2 [OF u]] have p: "unpacked d s1 res s2" .
  show ?thesis using u b c p by simp
qed

lemma run_unpack_raises:
  assumes "(if is_setup r then Inr (sys, r) else setup (sys, r)) = Inr (s1, r1)"
  shows "solve (s1, r1) = Inr (res, ok) \<Longrightarrow>
      DCPF_unpack d s1 (r1\<lparr>exit_code := (if ok then 0 else 1), exec_time := t\<rparr>) res = Inl e2 \<Longrightarrow>
      DCPF_run d setup solve t (sys, r) = Inl e2"
    and "solve2 (s1, r1) = Inr res \<Longrightarrow>
      ACOPF_unpack d s1 (r1\<lparr>exit_code := (if res_success res then 0 else 1), exec_time := t\<rparr>) res
        = Inl e2 \<Longrightarrow>
      ACOPF_run d setup solve2 t (sys, r) = Inl e2"
  using assms DCPF_run_unfold [of r sys "setup" s1 r1 solve res ok d t]
    ACOPF_run_unfold [of r sys "setup" s1 r1 solve2 res d t]
  by simp_all

lemma run_setup_raises:
  "\<not> is_setup r \<Longrightarrow> setup (sys, r) = Inl e \<Longrightarrow>
     DCPF_run d setup solve t (sys, r) = Inl e \<and> ACOPF_run d setup solve2 t (sys, r) = Inl e"
  by (simp add: DCPF_run_def ACOPF_run_def bind_err_def)

text \<open>
  C2. For \<open>run\<close> of \<open>DCPFlowBase\<close> and of \<open>ACOPFBase\<close>: on a routine that is set up
  the result does not depend on \<open>setup\<close>, which is not invoked; on one that is not,
  \<open>setup\<close> is invoked first (its exception is the exception of \<open>run\<close>). Once the
  solver has returned, \<open>unpack\<close> is run on its result whether it reports success or
  not, with \<open>exit_code\<close> 0 for success and 1 otherwise and the elapsed time in
  \<open>exec_time\<close>, and the outcome of \<open>run\<close> is the outcome of \<open>unpack\<close>: when \<open>run\<close>
  returns, the device arrays hold the values of the result, and the value returned
  tells success from failure (\<open>DCPFlowBase.run\<close> returns the success flag,
  \<open>ACOPFBase.run\<close> returns the exit code).
\<close>

theorem run_pipeline:
  "(is_setup r \<longrightarrow>
      DCPF_run d setup solve t (sys, r) = DCPF_run d setup2 solve t (sys, r)
      \<and> ACOPF_run d setup solve2 t (sys, r) = ACOPF_run d setup2 solve2 t (sys, r))
   \<and> (\<not> is_setup r \<and> setup (sys, r) = Inl e \<longrightarrow>
      DCPF_run d setup solve t (sys, r) = Inl e \<and> ACOPF_run d setup solve2 t (sys, r) = Inl e)
   \<and> ((if is_setup r then Inr (sys, r) else setup (sys, r)) = Inr (s1, r1)
        \<and> solve (s1, r1) = Inr (res, ok) \<longrightarrow>
      DCPF_run d setup solve t (sys, r)
        = (case DCPF_unpack d s1 (r1\<lparr>exit_code := (if ok then 0 else 1), exec_time := t\<rparr>) res of
             Inl e2 \<Rightarrow> Inl e2 | Inr (s2, r2) \<Rightarrow> Inr (exit_code r2 = 0, s2, r2))
      \<and> (DCPF_run d setup solve t (sys, r) = Inr (b, s2, r2) \<longrightarrow>
           b = ok \<and> exit_code r2 = (if ok then 0 else 1) \<and> exec_time r2 = t
           \<and> unpacked d s1 res s2))
   \<and> ((if is_setup r then Inr (sys, r) else setup (sys, r)) = Inr (s1, r1)
        \<and> solve2 (s1, r1) = Inr res \<longrightarrow>
      ACOPF_run d setup solve2 t (sys, r)
        = (case ACOPF_unpack d s1
                  (r1\<lparr>exit_code := (if res_success res then 0 else 1), exec_time := t\<rparr>) res of
             Inl e2 \<Rightarrow> Inl e2 | Inr (s2, r2) \<Rightarrow> Inr (exit_code r2, s2, r2))
      \<and> (ACOPF_run d setup solve2 t (sys, r) = Inr (c, s2, r2) \<longrightarrow>
           c = (if res_success res then 0 else 1) \<and> exit_code r2 = c \<and> exec_time r2 = t
           \<and> unpacked d s1 res s2))"
proof -
  have A: "DCPF_run d setup solve t (sys, r) = DCPF_run d setup2 solve t (sys, r)
      \<and> ACOPF_run d setup solve2 t (sys, r) = ACOPF_run d setup2 solve2 t (sys, r)"
    if "is_setup r"
    using that run_not_setup_again by blast
  note B = run_setup_raises [of r "setup" sys e d solve t solve2]
  note C1 = DCPF_run_unfold [of r sys "setup" s1 r1 solve res ok d t]
  note C2 = DCPF_run_result [of r sys "setup" s1 r1 solve res ok d t b s2 r2]
  note D1 = ACOPF_run_unfold [of r sys "setup" s1 r1 solve2 res d t]
  note D2 = ACOPF_run_result [of r sys "setup" s1 r1 solve2 res d t c s2 r2]
  show ?thesis
    apply (intro conjI impI)
    subgoal using A by blast
    subgoal using A by blast
    subgoal using B by blast
    subgoal using B by blast
    subgoal using C1 by blast
    subgoal using C2 by blast
    subgoal using C2 by blast
    subgoal using C2 by blast
    subgoal using C2 by blast
    subgoal using D1 by blast
    subgoal using D2 by blast
    subgoal using D2 by blast
    subgoal using D2 by blast
    subgoal using D2 by blast
    done
qed


theorem run_pipeline_witness:
  "is_setup rt_example
   \<and> DCPF_run (1 / 60) setup_fails solve_example 3.5 (sys_example, rt_example)
       = DCPF_run (1 / 60) setup_example solve_example 3.5 (sys_example, rt_example)
   \<and> DCPF_run (1 / 60) setup_fails solve_example 3.5 (sys_example, rt_example\<lparr>is_setup := False\<rparr>)
       = Inl ValueError
   \<and> (\<exists>s2 r2. DCPF_run (1 / 60) setup_example solve_example 3.5
                  (sys_example, rt_example\<lparr>is_setup := False\<rparr>) = Inr (False, s2, r2)
         \<and> exit_code r2 = 1 \<and> exec_time r2 = 3.5
         \<and> sys_attr s2 ''PV'' ''p'' = Some (NdArray [Num 1.6, Num 2.4])
         \<and> sys_attr s2 ''Bus'' ''v'' = Some (NdArray [Num 1.02, Num 1.01, Num 0.99]))
   \<and> (\<exists>s2 r2. ACOPF_run (1 / 60) setup_example solve2_example 3.5
                  (sys_example, rt_example\<lparr>is_setup := False\<rparr>) = Inr (1, s2, r2)
         \<and> exit_code r2 = 1 \<and> exec_time r2 = 3.5
         \<and> sys_attr s2 ''PV'' ''p'' = Some (NdArray [Num 1.6, Num 2.4])
         \<and> sys_attr s2 ''Bus'' ''v'' = Some (NdArray [Num 1.02, Num 1.01, Num 0.99]))"
proof -
  let ?d = "1 / 60 :: real" and ?t = "3.5 :: real"
  let ?r0 = "rt_example\<lparr>is_setup := False\<rparr>" and ?r1 = "rt_example\<lparr>is_setup := True\<rparr>"
  have su: "is_setup rt_example" "\<not> is_setup ?r0"
    by (simp_all add: rt_example_def)
  have k: "Slack_n sys_example = Inr 1"
    by (simp add: Slack_n_def Model_n_def sys_example_def slack_example_def)
  have pre: "(if is_setup ?r0 then Inr (sys_example, ?r0) else setup_example (sys_example, ?r0))
      = Inr (sys_example, ?r1)"
    by (simp add: setup_example_def rt_example_def)
  have so: "solve_example (sys_example, ?r1) = Inr (res_example, False)"
    "solve2_example (sys_example, ?r1) = Inr res_example"
    by (simp_all add: solve_example_def solve2_example_def)
  have 1: "DCPF_run ?d setup_fails solve_example ?t (sys_example, rt_example)
       = DCPF_run ?d setup_example solve_example ?t (sys_example, rt_example)"
    using run_pipeline [of rt_example ?d setup_fails solve_example ?t sys_example
        setup_example] su
    by blast
  have 2: "DCPF_run ?d setup_fails solve_example ?t (sys_example, ?r0) = Inl ValueError"
    using run_pipeline [of ?r0 ?d setup_fails solve_example ?t sys_example _ _ ValueError] su
    by (simp add: setup_fails_def)
  obtain s2 r2 where
    e: "DCPF_run ?d setup_example solve_example ?t (sys_example, ?r0) = Inr (False, s2, r2)"
    by (simp add: DCPF_run_def setup_example_def solve_example_def unpack_defs example_defs)
  obtain s3 r3 where
    f: "ACOPF_run ?d setup_example solve2_example ?t (sys_example, ?r0) = Inr (1, s3, r3)"
    by (simp add: ACOPF_run_def setup_example_def solve2_example_def unpack_defs example_defs)
  have 3: "exit_code r2 = 1 \<and> exec_time r2 = ?t \<and> unpacked ?d sys_example res_example s2"
    using run_pipeline [of ?r0 ?d setup_example solve_example ?t sys_example _ _ _
        sys_example ?r1 res_example False False s2 r2] pre so e
    by simp
  have 4: "exit_code r3 = 1 \<and> exec_time r3 = ?t \<and> unpacked ?d sys_example res_example s3"
    using run_pipeline [of ?r0 ?d setup_example _ ?t sys_example _ solve2_example _
        sys_example ?r1 res_example _ _ s3 r3 1] pre so f
    by (simp add: res_example_def)
  have 5: "sys_attr s ''PV'' ''p'' = Some (NdArray [Num 1.6, Num 2.4])
      \<and> sys_attr s ''Bus'' ''v'' = Some (NdArray [Num 1.02, Num 1.01, Num 0.99])"
    if "unpacked ?d sys_example res_example s" for s
    using that k by (auto simp: unpacked_def the_col_def res_example_def)
  show ?thesis
    using su(1) 1 2 3 4 5 e f by auto
qed


section \<open>Where \<open>unpack\<close> departs from its documentation\<close>

lemma RParam_v_single:
  "sys_attr_addr s onm p = Some a \<Longrightarrow> owner r = Some onm \<Longrightarrow> src r = Some p \<Longrightarrow>
   \<not> is_set r \<Longrightarrow> \<not> is_group r \<Longrightarrow> RParam_v s r = Inr (Ref a)"
  by (auto simp: RParam_v_def sys_attr_addr_def member_model_def
      split: option.splits sysobj.splits)

lemma unpack_rebinds:
  assumes "DCPF_unpack d sys r res = Inr (s', r') \<or> ACOPF_unpack d sys r res = Inr (s', r')"
    and "a < nxt sys"
  shows "sys_attr_addr s' ''PV'' ''p'' = Some (nxt sys + 2) \<and> heap s' a = heap sys a"
  using unpack_writes [OF assms(1)] assms(2) by (auto simp: bound_to_def)

text \<open>
  C8, at a failing input. The routine \<open>rt_unresolved\<close> declares a variable whose
  \<open>owner_name\<close> names no attribute of the system, followed by the variable \<open>pg\<close>:
  \<open>unpack\<close> raises AttributeError at \<open>getattr(system, var.owner_name)\<close> instead of
  skipping the variable, and \<open>pg\<close> is not written. An \<open>owner_name\<close> that is \<open>None\<close>
  and an owner without a \<open>class_name\<close> raise too; the warning is reached only for an
  owner that has a \<open>class_name\<close> but neither \<open>group\<close> nor \<open>get_idx\<close>.
\<close>

theorem unpack_unresolved_owner_raises:
  "DCPF_unpack (1 / 60) sys_example rt_unresolved res_example = Inl AttributeError
   \<and> unpack_var sys_example \<lparr>var_owner_name = None, var_src = Some ''p'', var_v = None\<rparr>
       = Inl TypeError
   \<and> unpack_var sys_example \<lparr>var_owner_name = Some ''config'', var_src = Some ''p'', var_v = None\<rparr>
       = Inl AttributeError
   \<and> unpack_var sys_example \<lparr>var_owner_name = Some ''DCPF'', var_src = Some ''p'', var_v = None\<rparr>
       = Inr Warned"
  by (simp add: unpack_defs example_defs rt_unresolved_def)

text \<open>
  C3, at a failing input. Before \<open>unpack\<close> the reference \<open>rp_single\<close> reads the array
  object at address 0. \<open>unpack\<close> binds \<open>PV.p.v\<close> to a new array object (address 22)
  and does not write into the one at address 0: a fresh read of the reference
  resolves to the new object and sees the new values, while the object read before,
  a view still held by a caller, keeps the old ones.
\<close>

theorem unpack_rebinds_attribute_arrays:
  "RParam_v sys_example rp_single = Inr (Ref 0)
   \<and> observe sys_example (Ref 0) = Arr (NdArray [Num 1.5, Num 2.5])
   \<and> (\<exists>s' r'. DCPF_unpack (1 / 60) sys_example rt_example res_example = Inr (s', r')
         \<and> sys_attr s' ''PV'' ''p'' = Some (NdArray [Num 1.6, Num 2.4])
         \<and> RParam_v s' rp_single = Inr (Ref 22)
         \<and> observe s' (Ref 22) = Arr (NdArray [Num 1.6, Num 2.4])
         \<and> observe s' (Ref 0) = Arr (NdArray [Num 1.5, Num 2.5]))"
proof -
  have rp: "owner rp_single = Some ''PV''" "src rp_single = Some ''p''"
    "\<not> is_set rp_single" "\<not> is_group rp_single"
    by (simp_all add: rp_single_def RParam_init_def)
  have a0: "sys_attr_addr sys_example ''PV'' ''p'' = Some 0"
    by (simp add: sys_attr_addr_def member_model_def attr_addr_def sys_example_def pv_example_def)
  have h0: "heap sys_example 0 = NdArray [Num 1.5, Num 2.5]" and n: "nxt sys_example = 20"
    by (simp_all add: sys_example_def heap_example_def)
  obtain s' r' where e: "DCPF_unpack (1 / 60) sys_example rt_example res_example = Inr (s', r')"
    by (simp add: unpack_defs example_defs)
  have k: "Slack_n sys_example = Inr 1"
    by (simp add: Slack_n_def Model_n_def sys_example_def slack_example_def)
  from unpack_rebinds [OF disjI1 [OF e], of 0] n h0
  have a1: "sys_attr_addr s' ''PV'' ''p'' = Some 22" and h1: "heap s' 0 = NdArray [Num 1.5, Num 2.5]"
    by simp_all
  from unpack_unpacked [OF disjI1 [OF e]] k
  have v: "sys_attr s' ''PV'' ''p'' = Some (NdArray [Num 1.6, Num 2.4])"
    by (auto simp: unpacked_def the_col_def res_example_def)
  with a1 have h2: "heap s' 22 = NdArray [Num 1.6, Num 2.4]"
    by (simp add: sys_attr_def)
  show ?thesis
    using RParam_v_single [OF a0 rp] RParam_v_single [OF a1 rp] h0 h1 h2 v e
    by (auto simp: observe_def)
qed


section \<open>Properties of the matrix partition\<close>

lemma idx2uid_registered:
  assumes "\<forall>i \<in> set xs. uid m i \<noteq> None"
  shows "idx2uid m (ArgSeq (map IAtom xs)) = Inr (UList (map (uid m) xs))"
proof -
  have "resolve_all (resolve_item m) (map IAtom xs)
      = Inr (map (\<lambda>x. case x of IAtom i \<Rightarrow> uid m i | _ \<Rightarrow> None) (map IAtom xs))"
    using assms by (intro resolve_all_ok) (auto simp: resolve_item_def one_idx2uid_def)
  then show ?thesis by (cases xs) (simp_all add: idx2uid_def comp_def)
qed


lemma wf_index_nth:
  "wf_index m \<Longrightarrow> k < length (idx_v m) \<Longrightarrow> uid m (idx_v m ! k) = Some k"
  by (simp add: wf_index_def list_all_iff)

lemma wf_index_mem:
  assumes "wf_index m" and "b \<in> set (idx_v m)"
  shows "\<exists>k < length (idx_v m). uid m b = Some k"
proof -
  from assms(2) obtain k where "k < length (idx_v m)" "idx_v m ! k = b"
    by (auto simp: in_set_conv_nth)
  with wf_index_nth [OF assms(1)] show ?thesis by auto
qed

lemma wf_index_all: "wf_index m \<Longrightarrow> map (\<lambda>b. the (uid m b)) (idx_v m) = [0..<length (idx_v m)]"
  by (rule nth_equalityI) (simp_all add: wf_index_nth)













section \<open>Properties of the initial guess for unit commitment\<close>

lemma idx2model_Some:
  "idx2model sys nms i = Some (nm, m) \<Longrightarrow>
     nm \<in> set nms \<and> member_model sys nm = Some m \<and> uid m i \<noteq> None"
  by (induction nms) (auto split: option.splits if_splits)

lemma setitem_Inr: "setitem h a u v = Inr h' \<Longrightarrow> h' = h(a := arr_update (h a) u v)"
  by (auto simp: setitem_def split: if_splits)

lemma group_addrs_mem:
  "nm \<in> set (members g) \<Longrightarrow> member_model sys nm = Some m \<Longrightarrow> attr_addr m s atr = Some a \<Longrightarrow>
     a \<in> set (group_addrs sys g s atr)"
  by (force simp: group_addrs_def map_filter_def)

lemma group_scatter_frame:
  "group_scatter sys g s atr ivs h = Inr h' \<Longrightarrow> a \<notin> set (group_addrs sys g s atr) \<Longrightarrow> h' a = h a"
proof (induction ivs arbitrary: h)
  case Nil
  then show ?case by simp
next
  case (Cons iv ivs)
  obtain i v where iv: "iv = (i, v)" by (cases iv)
  from Cons.prems(1) obtain nm m b h1 where
    f: "idx2model sys (members g) i = Some (nm, m)" and ad: "attr_addr m s atr = Some b"
    and st: "setitem h b (the (uid m i)) v = Inr h1"
    and rest: "group_scatter sys g s atr ivs h1 = Inr h'"
    unfolding iv by (auto split: option.splits sum.splits)
  from idx2model_Some [OF f] ad have "b \<in> set (group_addrs sys g s atr)"
    using group_addrs_mem by blast
  with Cons.prems(2) have "a \<noteq> b" by blast
  with setitem_Inr [OF st] have "h1 a = h a" by simp
  with Cons.IH [OF rest Cons.prems(2)] show ?case by simp
qed

lemma arr_items_update: "length (arr_items (arr_update x u v)) = length (arr_items x)"
  by (cases x) (simp_all add: arr_items_def arr_update_def)

lemma group_scatter_exact:
  assumes "\<forall>i \<in> set is. idx2model sys (members g) i = Some (nm, m)"
    and "attr_addr m s atr = Some a"
    and "\<forall>i \<in> set is. \<exists>k. uid m i = Some k \<and> k < length (arr_items (h a))"
  shows "group_scatter sys g s atr (map (\<lambda>i. (i, v)) is) h
    = Inr (h(a := write_all (h a) (map (\<lambda>i. the (uid m i)) is) v))"
  using assms
proof (induction "is" arbitrary: h)
  case Nil
  then show ?case by (simp add: write_all_def)
next
  case (Cons i "is")
  from Cons.prems(3) obtain k where k: "uid m i = Some k" "k < length (arr_items (h a))"
    by auto
  let ?h1 = "h(a := arr_update (h a) k v)"
  have st: "setitem h a k v = Inr ?h1"
    using k by (simp add: setitem_def)
  have 3: "\<forall>j \<in> set is. \<exists>k. uid m j = Some k \<and> k < length (arr_items (?h1 a))"
    using Cons.prems(3) by (simp add: arr_items_update)
  have f: "idx2model sys (members g) i = Some (nm, m)"
    using Cons.prems(1) by simp
  have step: "group_scatter sys g s atr (map (\<lambda>i. (i, v)) (i # is)) h
      = group_scatter sys g s atr (map (\<lambda>i. (i, v)) is) ?h1"
    using f Cons.prems(2) k(1) st by simp
  have ih: "group_scatter sys g s atr (map (\<lambda>i. (i, v)) is) ?h1
    = Inr (?h1(a := write_all (?h1 a) (map (\<lambda>i. the (uid m i)) is) v))"
    by (rule Cons.IH) (use Cons.prems(1,2) 3 in simp_all)
  have e: "?h1(a := write_all (?h1 a) (map (\<lambda>i. the (uid m i)) is) v)
      = h(a := write_all (h a) (map (\<lambda>i. the (uid m i)) (i # is)) v)"
    using k(1) by (simp add: write_all_def)
  show ?case
    unfolding step ih e ..
qed

lemma write_all_NdArray:
  "write_all (NdArray xs) us v = NdArray (map (\<lambda>k. if k \<in> set us then v else xs ! k) [0..<length xs])"
proof (induction us arbitrary: xs)
  case Nil
  then show ?case by (simp add: write_all_def map_nth)
next
  case (Cons u us)
  have "write_all (NdArray xs) (u # us) v = write_all (NdArray (xs[u := v])) us v"
    by (simp add: write_all_def arr_update_def)
  also have "\<dots> = NdArray (map (\<lambda>k. if k \<in> set us then v else xs[u := v] ! k) [0..<length xs])"
    using Cons.IH [of "xs[u := v]"] by simp
  also have "map (\<lambda>k. if k \<in> set us then v else xs[u := v] ! k) [0..<length xs]
      = map (\<lambda>k. if k \<in> set (u # us) then v else xs ! k) [0..<length xs]"
    by (rule map_cong) (auto simp: nth_list_update)
  finally show ?case .
qed

lemma Model_get_all:
  assumes w: "wf_index m" and ad: "attr_addr m s ''v'' = Some a" and h: "h a = NdArray xs"
    and len: "length xs = length (idx_v m)"
  shows "Model_get h m s (ArgSeq (map IAtom (idx_v m))) ''v'' an d = Inr (Arr (NdArray xs))"
proof -
  have reg: "\<forall>i \<in> set (idx_v m). uid m i \<noteq> None"
    using wf_index_mem [OF w] by fastforce
  have "map (uid m) (idx_v m) = map Some (map (\<lambda>b. the (uid m b)) (idx_v m))"
    using reg by auto
  then have us: "map (uid m) (idx_v m) = map Some [0..<length xs]"
    using wf_index_all [OF w] len by simp
  have u: "idx2uid m (ArgSeq (map IAtom (idx_v m))) = Inr (UList (map Some [0..<length xs]))"
    using idx2uid_registered [OF reg] us by simp
  have nd: "nd_getitem xs (UList (map Some [0..<length xs])) = Inr (Arr (NdArray xs))"
    by (auto simp: nd_getitem_def comp_def map_nth)
  from ad obtain inst where "params m s = Some inst" "inst ''v'' = Some a"
    by (auto simp: attr_addr_def split: option.splits)
  then show ?thesis
    using u nd h by (simp add: Model_get_def)
qed


lemma priority_off_props:
  assumes d: "distinct ids" and len: "length ws = length ids"
  shows "set (priority_off ids ws) \<subseteq> set ids"
    and "distinct (priority_off ids ws)"
    and "length (priority_off ids ws) = (3 * length ids) div 10"
    and "\<forall>i \<in> set (priority_off ids ws). \<forall>j \<in> set ids - set (priority_off ids ws).
           score ids ws i \<le> score ids ws j"
proof -
  let ?ps = "sort_key snd (zip ids ws)"
  let ?k = "(3 * length ids) div 10"
  have fst_zip: "map fst (zip ids ws) = ids"
    using len by (simp add: map_fst_zip)
  have dz: "distinct (map fst (zip ids ws))"
    using d fst_zip by simp
  have set_ps: "set ?ps = set (zip ids ws)"
    by simp
  have dps: "distinct (map fst ?ps)"
    using dz unfolding distinct_map by simp
  have sc: "score ids ws i = x" if "(i, x) \<in> set (zip ids ws)" for i x
    using that dz by (simp add: score_def)
  show "set (priority_off ids ws) \<subseteq> set ids"
  proof
    fix i assume "i \<in> set (priority_off ids ws)"
    then have "i \<in> set (map fst ?ps)"
      unfolding priority_off_def by (metis in_set_takeD take_map)
    then show "i \<in> set ids"
      using fst_zip set_ps by (metis set_map)
  qed
  show "distinct (priority_off ids ws)"
    unfolding priority_off_def using dps by (rule distinct_take)
  show "length (priority_off ids ws) = ?k"
    unfolding priority_off_def using len by simp
  show "\<forall>i \<in> set (priority_off ids ws). \<forall>j \<in> set ids - set (priority_off ids ws).
           score ids ws i \<le> score ids ws j"
  proof (intro ballI)
    fix i j
    assume i: "i \<in> set (priority_off ids ws)" and j: "j \<in> set ids - set (priority_off ids ws)"
    have off: "priority_off ids ws = map fst (take ?k ?ps)"
      by (simp add: priority_off_def take_map)
    from i obtain x where ix: "(i, x) \<in> set (take ?k ?ps)"
      unfolding off by auto
    from j have "j \<in> set (map fst (zip ids ws))"
      using fst_zip by simp
    then obtain y where jy: "(j, y) \<in> set (zip ids ws)"
      by auto
    then have "(j, y) \<in> set ?ps"
      using set_ps by simp
    moreover have "set ?ps = set (take ?k ?ps) \<union> set (drop ?k ?ps)"
      by (metis append_take_drop_id set_append)
    moreover have "(j, y) \<notin> set (take ?k ?ps)"
      using j unfolding off by force
    ultimately have jd: "(j, y) \<in> set (drop ?k ?ps)"
      by blast
    have "sorted (map snd (take ?k ?ps @ drop ?k ?ps))"
      by simp
    then have "\<forall>p \<in> set (take ?k ?ps). \<forall>q \<in> set (drop ?k ?ps). snd p \<le> snd q"
      unfolding map_append sorted_append by auto
    with ix jd have "x \<le> y" by fastforce
    moreover have "score ids ws i = x"
      using ix set_ps sc by (metis in_set_takeD)
    moreover have "score ids ws j = y"
      using jy sc by simp
    ultimately show "score ids ws i \<le> score ids ws j" by simp
  qed
qed


lemma column_length: "column k x = Inr vs \<Longrightarrow> length vs = k"
  by (auto simp: column_def split: sum.splits pyval.splits if_splits)

lemma nums_length: "nums vs = Inr xs \<Longrightarrow> length xs = length vs"
  by (induction vs arbitrary: xs rule: nums.induct) (auto split: sum.splits)

lemma wsums_length:
  "length as = k \<Longrightarrow> length bs = k \<Longrightarrow> length cs = k \<Longrightarrow> length ds = k \<Longrightarrow>
     length (wsums as bs cs ds) = k"
  by (induction as bs cs ds arbitrary: k rule: wsums.induct) auto

lemma bind_err_InrE:
  assumes "bind_err x k = Inr y"
  obtains a where "x = Inr a" and "k a = Inr y"
  using assms by (cases x) (auto simp: bind_err_def)

lemma priority_scores_length:
  assumes "priority_scores find_idx sys pv = Inr ws"
  shows "length ws = length (idx_v pv)"
  using assms unfolding priority_scores_def Let_def
  by (auto split: option.splits sysobj.splits elim!: bind_err_InrE
      dest!: column_length nums_length intro!: wsums_length)

lemma zip_replicate: "zip xs (replicate (length xs) v) = map (\<lambda>x. (x, v)) xs"
  by (induction xs) auto

lemma initial_guess_unfold:
  assumes pv: "objs sys ''PV'' = Some (ObjModel pv)" and w: "wf_index pv"
    and ad: "attr_addr pv ''u'' ''v'' = Some a" and hu: "heap sys a = NdArray us"
    and len: "length us = length (idx_v pv)"
  shows "initial_guess find_idx sys =
     (if list_ex is_zero us then Inr (True, sys)
      else bind_err (priority_scores find_idx sys pv) (\<lambda>ws.
        (case objs sys ''StaticGen'' of
           Some (ObjGroup g) \<Rightarrow>
             bind_err (Group_set sys g ''u'' (priority_off (idx_v pv) ws) ''v''
                 (replicate (length (priority_off (idx_v pv) ws)) (Num 0)))
               (\<lambda>sys'. Inr (True, sys'))
         | _ \<Rightarrow> Inl AttributeError)))"
  unfolding initial_guess_def
  by (simp add: pv Model_get_all [where h = "heap sys", OF w ad hu len] any_zero_def bind_err_def Let_def)

lemma Group_set_Inr:
  "Group_set sys g s idx atr vals = Inr sys' \<Longrightarrow>
     \<exists>h'. group_scatter sys g s atr (zip idx vals) (heap sys) = Inr h' \<and> sys' = sys\<lparr>heap := h'\<rparr>"
  by (auto simp: Group_set_def split: if_splits sum.splits)

lemma off_positions:
  assumes w: "wf_index pv" and sub: "set off \<subseteq> set (idx_v pv)" and k: "k < length (idx_v pv)"
  shows "k \<in> set (map (\<lambda>i. the (uid pv i)) off) \<longleftrightarrow> idx_v pv ! k \<in> set off"
proof
  assume "k \<in> set (map (\<lambda>i. the (uid pv i)) off)"
  then obtain i where i: "i \<in> set off" "the (uid pv i) = k" by auto
  with sub have "i \<in> set (idx_v pv)" by blast
  then obtain k' where k': "k' < length (idx_v pv)" "idx_v pv ! k' = i"
    unfolding in_set_conv_nth by blast
  with wf_index_nth [OF w, of k'] i have "k' = k" by simp
  with k' i show "idx_v pv ! k \<in> set off" by simp
next
  assume "idx_v pv ! k \<in> set off"
  moreover have "the (uid pv (idx_v pv ! k)) = k"
    using wf_index_nth [OF w k] by simp
  ultimately show "k \<in> set (map (\<lambda>i. the (uid pv i)) off)" by force
qed

lemma Group_set_zeros:
  assumes w: "wf_index pv" and ad: "attr_addr pv ''u'' ''v'' = Some a"
    and hu: "heap sys a = NdArray us" and len: "length us = length (idx_v pv)"
    and sub: "set off \<subseteq> set (idx_v pv)"
    and route: "list_all (\<lambda>i. idx2model sys (members g) i = Some (''PV'', pv)) (idx_v pv)"
  shows "Group_set sys g ''u'' off ''v'' (replicate (length off) (Num 0))
    = Inr (sys\<lparr>heap := (heap sys)(a := NdArray
        (map (\<lambda>k. if idx_v pv ! k \<in> set off then Num 0 else us ! k) [0..<length us]))\<rparr>)"
proof -
  have r: "\<forall>i \<in> set off. idx2model sys (members g) i = Some (''PV'', pv)"
    using route sub by (auto simp: list_all_iff)
  have b: "\<forall>i \<in> set off. \<exists>k. uid pv i = Some k \<and> k < length (arr_items (heap sys a))"
    using wf_index_mem [OF w] sub hu len by (fastforce simp: arr_items_def)
  have "map (\<lambda>k. if k \<in> set (map (\<lambda>i. the (uid pv i)) off) then Num 0 else us ! k) [0..<length us]
      = map (\<lambda>k. if idx_v pv ! k \<in> set off then Num 0 else us ! k) [0..<length us]"
    by (rule map_cong) (use off_positions [OF w sub] len in auto)
  then have wa: "write_all (heap sys a) (map (\<lambda>i. the (uid pv i)) off) (Num 0)
      = NdArray (map (\<lambda>k. if idx_v pv ! k \<in> set off then Num 0 else us ! k) [0..<length us])"
    unfolding hu write_all_NdArray by simp
  show ?thesis
    unfolding Group_set_def zip_replicate group_scatter_exact [where h = "heap sys", OF r ad b] wa
    by simp
qed


text \<open>
  C10. Let the collection PV have a well-formed index and its attribute \<open>u\<close> stored as
  an array with one entry per generator. If some entry of \<open>u\<close> is zero,
  \<open>_initial_guess\<close> returns \<open>True\<close> and the state is the one before. If none is and
  the call returns, it returns \<open>True\<close> and only the store has changed: every array
  other than the arrays of the attribute \<open>u\<close> of the members of StaticGen is as before,
  and the generators written to are PV generators, three tenths of them rounded down,
  none with a higher score than a generator left alone. When \<open>set\<close> of the group finds
  the PV generators in PV, the array of \<open>u\<close> of PV is as before except for the zeros at
  these generators, no other array has changed, and the call does return once the
  scores were computed.
\<close>

theorem initial_guess_frame:
  assumes pv: "objs sys ''PV'' = Some (ObjModel pv)" and w: "wf_index pv"
    and ad: "attr_addr pv ''u'' ''v'' = Some a" and hu: "heap sys a = NdArray us"
    and len: "length us = length (idx_v pv)"
  shows "(list_ex is_zero us \<longrightarrow> initial_guess find_idx sys = Inr (True, sys))
     \<and> (\<not> list_ex is_zero us \<and> initial_guess find_idx sys = Inr (b, sys') \<longrightarrow>
          b \<and> sys' = sys\<lparr>heap := heap sys'\<rparr>
          \<and> (\<exists>g ws. objs sys ''StaticGen'' = Some (ObjGroup g)
                \<and> priority_scores find_idx sys pv = Inr ws
                \<and> (\<forall>a'. a' \<notin> set (group_addrs sys g ''u'' ''v'') \<longrightarrow> heap sys' a' = heap sys a')
                \<and> set (priority_off (idx_v pv) ws) \<subseteq> set (idx_v pv)
                \<and> length (priority_off (idx_v pv) ws) = (3 * length (idx_v pv)) div 10
                \<and> (\<forall>i \<in> set (priority_off (idx_v pv) ws).
                     \<forall>j \<in> set (idx_v pv) - set (priority_off (idx_v pv) ws).
                       score (idx_v pv) ws i \<le> score (idx_v pv) ws j)
                \<and> (list_all (\<lambda>i. idx2model sys (members g) i = Some (''PV'', pv)) (idx_v pv) \<longrightarrow>
                     heap sys' = (heap sys)(a := NdArray
                       (map (\<lambda>k. if idx_v pv ! k \<in> set (priority_off (idx_v pv) ws)
                                 then Num 0 else us ! k) [0..<length us])))))
     \<and> (\<not> list_ex is_zero us \<and> objs sys ''StaticGen'' = Some (ObjGroup g0)
          \<and> priority_scores find_idx sys pv = Inr ws0
          \<and> list_all (\<lambda>i. idx2model sys (members g0) i = Some (''PV'', pv)) (idx_v pv) \<longrightarrow>
          (\<exists>s1. initial_guess find_idx sys = Inr (True, s1)))"
proof -
  note unf = initial_guess_unfold [OF pv w ad hu len, of find_idx]
  have dist: "distinct (idx_v pv)"
    using w by (simp add: wf_index_def)
  have A: "initial_guess find_idx sys = Inr (True, sys)" if "list_ex is_zero us"
    using that unf by simp
  have B: "b \<and> sys' = sys\<lparr>heap := heap sys'\<rparr>
          \<and> (\<exists>g ws. objs sys ''StaticGen'' = Some (ObjGroup g)
                \<and> priority_scores find_idx sys pv = Inr ws
                \<and> (\<forall>a'. a' \<notin> set (group_addrs sys g ''u'' ''v'') \<longrightarrow> heap sys' a' = heap sys a')
                \<and> set (priority_off (idx_v pv) ws) \<subseteq> set (idx_v pv)
                \<and> length (priority_off (idx_v pv) ws) = (3 * length (idx_v pv)) div 10
                \<and> (\<forall>i \<in> set (priority_off (idx_v pv) ws).
                     \<forall>j \<in> set (idx_v pv) - set (priority_off (idx_v pv) ws).
                       score (idx_v pv) ws i \<le> score (idx_v pv) ws j)
                \<and> (list_all (\<lambda>i. idx2model sys (members g) i = Some (''PV'', pv)) (idx_v pv) \<longrightarrow>
                     heap sys' = (heap sys)(a := NdArray
                       (map (\<lambda>k. if idx_v pv ! k \<in> set (priority_off (idx_v pv) ws)
                                 then Num 0 else us ! k) [0..<length us]))))"
    if h: "\<not> list_ex is_zero us \<and> initial_guess find_idx sys = Inr (b, sys')"
  proof -
    from h have n: "\<not> list_ex is_zero us" and r: "initial_guess find_idx sys = Inr (b, sys')"
      by simp_all
    from r have e: "bind_err (priority_scores find_idx sys pv) (\<lambda>ws.
        (case objs sys ''StaticGen'' of
           Some (ObjGroup g) \<Rightarrow>
             bind_err (Group_set sys g ''u'' (priority_off (idx_v pv) ws) ''v''
                 (replicate (length (priority_off (idx_v pv) ws)) (Num 0)))
               (\<lambda>sys'. Inr (True, sys'))
         | _ \<Rightarrow> Inl AttributeError)) = Inr (b, sys')"
      unfolding unf using n by simp
    then obtain ws where ws: "priority_scores find_idx sys pv = Inr ws"
      and e2: "(case objs sys ''StaticGen'' of
           Some (ObjGroup g) \<Rightarrow>
             bind_err (Group_set sys g ''u'' (priority_off (idx_v pv) ws) ''v''
                 (replicate (length (priority_off (idx_v pv) ws)) (Num 0)))
               (\<lambda>sys'. Inr (True, sys'))
         | _ \<Rightarrow> Inl AttributeError) = Inr (b, sys')"
      by (rule bind_err_InrE)
    let ?off = "priority_off (idx_v pv) ws"
    from e2 obtain g where g: "objs sys ''StaticGen'' = Some (ObjGroup g)"
      and e3: "bind_err (Group_set sys g ''u'' ?off ''v'' (replicate (length ?off) (Num 0)))
               (\<lambda>sys'. Inr (True, sys')) = Inr (b, sys')"
      by (auto split: option.splits sysobj.splits)
    from e3 have gs: "Group_set sys g ''u'' ?off ''v'' (replicate (length ?off) (Num 0)) = Inr sys'"
      and b: "b"
      by (auto elim!: bind_err_InrE)
    from Group_set_Inr [OF gs] obtain h' where
      sc: "group_scatter sys g ''u'' ''v'' (zip ?off (replicate (length ?off) (Num 0))) (heap sys)
          = Inr h'" and s': "sys' = sys\<lparr>heap := h'\<rparr>"
      by blast
    have fr: "\<forall>a'. a' \<notin> set (group_addrs sys g ''u'' ''v'') \<longrightarrow> heap sys' a' = heap sys a'"
      using group_scatter_frame [OF sc] s' by simp
    have lw: "length ws = length (idx_v pv)"
      using priority_scores_length [OF ws] .
    note pp = priority_off_props [OF dist lw]
    have ex: "heap sys' = (heap sys)(a := NdArray
        (map (\<lambda>k. if idx_v pv ! k \<in> set ?off then Num 0 else us ! k) [0..<length us]))"
      if "list_all (\<lambda>i. idx2model sys (members g) i = Some (''PV'', pv)) (idx_v pv)"
      using Group_set_zeros [OF w ad hu len pp(1) that] gs by auto
    have own: "sys' = sys\<lparr>heap := heap sys'\<rparr>"
      using s' by simp
    show ?thesis
      using b own g ws fr pp(1) pp(3) pp(4) ex by blast
  qed
  have C: "\<exists>s1. initial_guess find_idx sys = Inr (True, s1)"
    if h: "\<not> list_ex is_zero us \<and> objs sys ''StaticGen'' = Some (ObjGroup g0)
          \<and> priority_scores find_idx sys pv = Inr ws0
          \<and> list_all (\<lambda>i. idx2model sys (members g0) i = Some (''PV'', pv)) (idx_v pv)"
  proof -
    have lw: "length ws0 = length (idx_v pv)"
      using priority_scores_length h by blast
    note pp = priority_off_props [OF dist lw]
    have "Group_set sys g0 ''u'' (priority_off (idx_v pv) ws0) ''v''
        (replicate (length (priority_off (idx_v pv) ws0)) (Num 0))
      = Inr (sys\<lparr>heap := (heap sys)(a := NdArray
          (map (\<lambda>k. if idx_v pv ! k \<in> set (priority_off (idx_v pv) ws0) then Num 0 else us ! k)
             [0..<length us]))\<rparr>)"
      using Group_set_zeros [OF w ad hu len pp(1)] h by blast
    then show ?thesis
      using unf h by (simp add: bind_err_def)
  qed
  show ?thesis
    using A B C by blast
qed


theorem initial_guess_frame_witness:
  "initial_guess find_idx_example uc_sys_offline = Inr (True, uc_sys_offline)
   \<and> priority_scores find_idx_example uc_sys uc_pv = Inr [16.004, 23.008, 14.012, 12.516]
   \<and> priority_off (idx_v uc_pv) [16.004, 23.008, 14.012, 12.516] = [IntId 4]
   \<and> (\<exists>s1. initial_guess find_idx_example uc_sys = Inr (True, s1)
         \<and> s1 = uc_sys\<lparr>heap := heap s1\<rparr>
         \<and> heap s1 = uc_heap(0 := NdArray [Num 1, Num 1, Num 1, Num 0]))"
proof -
  let ?g = "\<lparr>members = [''PV'', ''Slack'']\<rparr>"
  let ?ws = "[16.004, 23.008, 14.012, 12.516] :: real list"
  have w: "wf_index uc_pv"
    by (simp add: wf_index_def uc_pv_def upt_rec)
  have ad: "attr_addr uc_pv ''u'' ''v'' = Some 0"
    by (simp add: attr_addr_def uc_pv_def)
  have pv: "objs uc_sys ''PV'' = Some (ObjModel uc_pv)"
    "objs uc_sys_offline ''PV'' = Some (ObjModel uc_pv)"
    by (simp_all add: uc_sys_def uc_sys_offline_def)
  have h0: "heap uc_sys 0 = NdArray [Num 1, Num 1, Num 1, Num 1]"
    "heap uc_sys_offline 0 = NdArray [Num 1, Num 0, Num 1, Num 1]"
    by (simp_all add: uc_sys_def uc_sys_offline_def uc_heap_def)
  have len: "length [Num 1, Num 1, Num 1, Num 1] = length (idx_v uc_pv)"
    "length [Num 1, Num 0, Num 1, Num 1] = length (idx_v uc_pv)"
    by (simp_all add: uc_pv_def)
  have z: "list_ex is_zero [Num 1, Num 0, Num 1, Num 1]"
    "\<not> list_ex is_zero [Num 1, Num 1, Num 1, Num 1]"
    by (simp_all add: is_zero_def)
  have off: "initial_guess find_idx_example uc_sys_offline = Inr (True, uc_sys_offline)"
    using initial_guess_frame [OF pv(2) w ad h0(2) len(2), of find_idx_example] z(1) by blast
  have g: "objs uc_sys ''StaticGen'' = Some (ObjGroup ?g)"
    by (simp add: uc_sys_def)
  have ws: "priority_scores find_idx_example uc_sys uc_pv = Inr ?ws"
    by (simp add: priority_scores_def column_def arr_items_def wsum_def find_idx_example_def
        bind_err_def Model_get_def idx2uid_def resolve_item_def one_idx2uid_def nd_getitem_def
        uc_sys_def uc_heap_def uc_pv_def uc_gcost_def)
  have po: "priority_off (idx_v uc_pv) ?ws = [IntId 4]"
    by (simp add: priority_off_def uc_pv_def)
  have rt: "list_all (\<lambda>i. idx2model uc_sys (members ?g) i = Some (''PV'', uc_pv)) (idx_v uc_pv)"
    by (simp add: member_model_def uc_sys_def uc_pv_def)
  note t = initial_guess_frame [OF pv(1) w ad h0(1) len(1), of find_idx_example]
  from t [of _ _ ?g ?ws] z(2) g ws rt
  obtain s1 where s1: "initial_guess find_idx_example uc_sys = Inr (True, s1)"
    by blast
  from t [of True s1] z(2) s1 g ws rt
  have own: "s1 = uc_sys\<lparr>heap := heap s1\<rparr>"
    and hp: "heap s1 = (heap uc_sys)(0 := NdArray
        (map (\<lambda>k. if idx_v uc_pv ! k \<in> set (priority_off (idx_v uc_pv) ?ws)
                  then Num 0 else [Num 1, Num 1, Num 1, Num 1] ! k)
           [0..<length [Num 1, Num 1, Num 1, Num 1 :: val]]))"
    by auto
  have "heap s1 = uc_heap(0 := NdArray [Num 1, Num 1, Num 1, Num 0])"
    unfolding hp po by (simp add: uc_sys_def uc_pv_def upt_rec)
  with off ws po s1 own show ?thesis by blast
qed


end
